theory Spec2Isabelle
  imports Complex_Main
begin

section \<open>The simulated code service\<close>

text \<open>
  The repository is a browser playground. Its engine is the module \<^verbatim>\<open>codeService.ts\<close>:
  \<^verbatim>\<open>executeCode\<close>, \<^verbatim>\<open>analyzeComplexity\<close> and \<^verbatim>\<open>getAIInsights\<close> inspect the text of a snippet
  with substring tests and regular expressions and synthesise a result. Several
  iterations of the module are in the repository; the definitions below follow the latest
  one (with \<^verbatim>\<open>EXECUTION_TIMEOUT\<close>), and the two earlier iterations of
  \<^verbatim>\<open>analyzeComplexity\<close> and \<^verbatim>\<open>getAIInsights\<close> are given under suffixed names.

  Conventions of the embedding.
  \<^item> A JavaScript string is a \<^typ>\<open>string\<close>: a list of code units, restricted here to the
    code units 0 to 255 (read as Latin-1), so that \<^verbatim>\<open>O(n\<twosuperior>)\<close> has five characters.
  \<^item> A JavaScript number is a \<open>number\<close>: an integer-valued double, an infinity or NaN;
    addition rounds as IEEE 754 binary64 does (to nearest, ties to even).
  \<^item> A loop that may run forever is a \<^theory_text>\<open>partial_function\<close> into \<open>option\<close>:
    \<open>None\<close> means that the call never returns.
  \<^item> \<^verbatim>\<open>Math.random()\<close> and \<^verbatim>\<open>Date.now()\<close> are read from an explicit environment.
  \<^item> \<^verbatim>\<open>console.log\<close> and the artificial delays of \<^verbatim>\<open>analyzeComplexity\<close> and
    \<^verbatim>\<open>getAIInsights\<close> have no effect on the value returned and are left out.
\<close>

subsection \<open>Strings\<close>

text \<open>White space and line terminators of ECMAScript below code unit 256:
  TAB, LF, VT, FF, CR, SP and NBSP. \<^verbatim>\<open>trim\<close> and the class \<^verbatim>\<open>\s\<close> use the same set.\<close>

definition isWhiteSpace :: "char \<Rightarrow> bool" where
  "isWhiteSpace c =
     (c \<in> set [CHR 0x09, CHR 0x0A, CHR 0x0B, CHR 0x0C, CHR 0x0D, CHR 0x20, CHR 0xA0])"

definition inRange :: "char \<Rightarrow> char \<Rightarrow> char \<Rightarrow> bool" where
  "inRange lo hi c = ((of_char lo :: nat) \<le> of_char c \<and> (of_char c :: nat) \<le> of_char hi)"

definition isDigit :: "char \<Rightarrow> bool" where
  "isDigit c = inRange CHR ''0'' CHR ''9'' c"

definition isWordChar :: "char \<Rightarrow> bool" where
  "isWordChar c =
     (inRange CHR ''a'' CHR ''z'' c \<or> inRange CHR ''A'' CHR ''Z'' c \<or> isDigit c \<or> c = CHR ''_'')"

definition isLineTerminator :: "char \<Rightarrow> bool" where
  "isLineTerminator c = (c = CHR 0x0A \<or> c = CHR 0x0D)"

text \<open>\<^verbatim>\<open>toLowerCase\<close> on one code unit: the ASCII capitals and the Latin-1 capitals
  (0xC0 to 0xDE without the multiplication sign) move up by 32.\<close>

definition toLowerChar :: "char \<Rightarrow> char" where
  "toLowerChar c =
     (if inRange CHR ''A'' CHR ''Z'' c \<or> (inRange (CHR 0xC0) (CHR 0xDE) c \<and> c \<noteq> CHR 0xD7)
      then char_of (of_char c + (32::nat)) else c)"

definition strToLowerCase :: "string \<Rightarrow> string" where
  "strToLowerCase s = map toLowerChar s"

definition strTrim :: "string \<Rightarrow> string" where
  "strTrim s = rev (dropWhile isWhiteSpace (rev (dropWhile isWhiteSpace s)))"

fun strStartsWith :: "string \<Rightarrow> string \<Rightarrow> bool" where
  "strStartsWith s [] = True"
| "strStartsWith [] (p # ps) = False"
| "strStartsWith (c # s) (p # ps) = (c = p \<and> strStartsWith s ps)"

text \<open>\<^verbatim>\<open>s.includes(sub)\<close> and \<^verbatim>\<open>s.indexOf(sub)\<close> (\<open>- 1\<close> when \<open>sub\<close> does not occur).\<close>

fun strIncludes :: "string \<Rightarrow> string \<Rightarrow> bool" where
  "strIncludes [] sub = (sub = [])"
| "strIncludes (c # s) sub = (strStartsWith (c # s) sub \<or> strIncludes s sub)"

fun strIndexOf :: "string \<Rightarrow> string \<Rightarrow> int" where
  "strIndexOf [] sub = (if sub = [] then 0 else - 1)"
| "strIndexOf (c # s) sub =
     (if strStartsWith (c # s) sub then 0
      else (let r = strIndexOf s sub in if r < 0 then - 1 else r + 1))"

text \<open>\<^verbatim>\<open>s.includes(sub, pos)\<close>: the search starts at \<open>pos\<close>, clamped to the string.\<close>

definition strIncludesFrom :: "string \<Rightarrow> string \<Rightarrow> int \<Rightarrow> bool" where
  "strIncludesFrom s sub pos = strIncludes (drop (nat pos) s) sub"

text \<open>\<^verbatim>\<open>s.split(',')\<close>: the pieces between the separators, at least one piece.\<close>

fun strSplit :: "char \<Rightarrow> string \<Rightarrow> string list" where
  "strSplit sep [] = [[]]"
| "strSplit sep (c # s) =
     (if c = sep then [] # strSplit sep s
      else (case strSplit sep s of [] \<Rightarrow> [[c]] | p # ps \<Rightarrow> (c # p) # ps))"

subsection \<open>Numbers\<close>

text \<open>
  The numbers of the service are the literals \<open>0\<close>, \<open>1\<close>, \<open>2\<close>, \<open>10\<close>, the results of
  \<^verbatim>\<open>parseInt\<close> on a run of digits, and sums of those. They are integer-valued doubles or
  \<open>+\<infinity>\<close>; the other two special values make the operations total. A double holds an
  integer exactly when it fits 53 significant bits; \<open>roundNat\<close> rounds any natural number
  to such a value, and a magnitude of \<open>2 ^ 1024\<close> or more after rounding is infinite.
\<close>

datatype number = Num int | PosInfinity | NegInfinity | NaN

fun bitLength :: "nat \<Rightarrow> nat" where
  "bitLength n = (if n = 0 then 0 else Suc (bitLength (n div 2)))"

declare bitLength.simps [simp del]

definition roundNat :: "nat \<Rightarrow> nat" where
  "roundNat x =
     (let e = bitLength x - 53; q = x div 2 ^ e; r = x mod 2 ^ e in
      if e = 0 then x
      else if r < 2 ^ (e - 1) \<or> (r = 2 ^ (e - 1) \<and> even q) then q * 2 ^ e
      else (q + 1) * 2 ^ e)"

definition toNumber :: "int \<Rightarrow> number" where
  "toNumber k =
     (let m = roundNat (nat \<bar>k\<bar>) in
      if 1024 < bitLength m then (if k < 0 then NegInfinity else PosInfinity)
      else Num (if k < 0 then - int m else int m))"

fun numAdd :: "number \<Rightarrow> number \<Rightarrow> number" where
  "numAdd (Num a) (Num b) = toNumber (a + b)"
| "numAdd NaN y = NaN"
| "numAdd x NaN = NaN"
| "numAdd PosInfinity NegInfinity = NaN"
| "numAdd NegInfinity PosInfinity = NaN"
| "numAdd PosInfinity y = PosInfinity"
| "numAdd NegInfinity y = NegInfinity"
| "numAdd x PosInfinity = PosInfinity"
| "numAdd x NegInfinity = NegInfinity"

fun numLe :: "number \<Rightarrow> number \<Rightarrow> bool" where
  "numLe (Num a) (Num b) = (a \<le> b)"
| "numLe NaN y = False"
| "numLe x NaN = False"
| "numLe NegInfinity y = True"
| "numLe x PosInfinity = True"
| "numLe x y = False"

text \<open>\<^verbatim>\<open>parseInt(s, 10)\<close> on a non-empty run of ASCII digits: the double nearest to the
  decimal value (the only strings the service passes are captures of \<^verbatim>\<open>\d+\<close>). Past
  20 significant digits the language lets an implementation replace the later digits by
  zeros; the literals read below have 17 digits at most.\<close>

definition digitValue :: "char \<Rightarrow> nat" where
  "digitValue c = of_char c - 48"

definition decimalValue :: "string \<Rightarrow> nat" where
  "decimalValue s = foldl (\<lambda>acc c. acc * 10 + digitValue c) 0 s"

definition parseInt :: "string \<Rightarrow> number" where
  "parseInt s = toNumber (int (decimalValue s))"

text \<open>
  \<^verbatim>\<open>Number::toString\<close>, used by the template literals. The digits are the shortest
  decimal \<open>s\<close> (of \<open>k\<close> digits) with \<open>s * 10 ^ (n - k)\<close> rounding to the number, the
  nearest such \<open>s\<close> when there are two; up to \<open>n = 21\<close> they are padded with zeros,
  beyond that the exponent form is used. For an integer below \<open>2 ^ 53\<close> this is its
  plain decimal expansion.
\<close>

fun digitsOf :: "nat \<Rightarrow> string" where
  "digitsOf n =
     (if n < 10 then [char_of (48 + n)] else digitsOf (n div 10) @ [char_of (48 + n mod 10)])"

declare digitsOf.simps [simp del]

definition candidate :: "nat \<Rightarrow> nat \<Rightarrow> nat \<Rightarrow> nat option" where
  "candidate x d k =
     (let e = d - k; lo = x div 10 ^ e; hi = lo + 1;
          okLo = (10 ^ (k - 1) \<le> lo \<and> lo < 10 ^ k \<and> roundNat (lo * 10 ^ e) = x);
          okHi = (10 ^ (k - 1) \<le> hi \<and> hi < 10 ^ k \<and> roundNat (hi * 10 ^ e) = x) in
      if okLo \<and> okHi then
        (if x - lo * 10 ^ e < hi * 10 ^ e - x then Some lo
         else if hi * 10 ^ e - x < x - lo * 10 ^ e then Some hi
         else if even lo then Some lo else Some hi)
      else if okLo then Some lo
      else if okHi then Some hi
      else None)"

fun shortest :: "nat \<Rightarrow> nat \<Rightarrow> nat list \<Rightarrow> nat \<times> nat \<times> nat" where
  "shortest x d [] = (x, d, d)"
| "shortest x d (k # ks) =
     (case candidate x d k of Some s \<Rightarrow> (s, k, d) | None \<Rightarrow> shortest x d ks)"

definition digitsNKS :: "nat \<Rightarrow> nat \<times> nat \<times> nat" where
  "digitsNKS x =
     (let d = length (digitsOf x) in
      if roundNat (10 ^ d) = x then (1, 1, d + 1)
      else shortest x d [1 ..< Suc (min 17 d)])"

definition natToString :: "nat \<Rightarrow> string" where
  "natToString x =
     (let (s, k, n) = digitsNKS x; ds = digitsOf s in
      if n \<le> 21 then ds @ replicate (n - k) CHR ''0''
      else if k = 1 then ds @ ''e+'' @ digitsOf (n - 1)
      else take 1 ds @ ''.'' @ drop 1 ds @ ''e+'' @ digitsOf (n - 1))"

fun numberToString :: "number \<Rightarrow> string" where
  "numberToString NaN = ''NaN''"
| "numberToString PosInfinity = ''Infinity''"
| "numberToString NegInfinity = ''-Infinity''"
| "numberToString (Num k) =
     (if k = 0 then ''0''
      else if k < 0 then ''-'' @ natToString (nat (- k))
      else natToString (nat k))"

subsection \<open>Regular expressions\<close>

text \<open>
  The patterns of the service use literal characters, the classes \<^verbatim>\<open>\s\<close>, \<^verbatim>\<open>\w\<close>,
  \<^verbatim>\<open>\d\<close>, \<^verbatim>\<open>.\<close> and bracket classes, the quantifiers \<^verbatim>\<open>*\<close>, \<^verbatim>\<open>+\<close>, \<^verbatim>\<open>?\<close> and the lazy
  \<^verbatim>\<open>*?\<close>, and groups. \<open>run\<close> is the backtracking matcher of ECMAScript as a list of
  successes: every way the pattern matches a prefix of the input, as the rest of the
  input and the captures, in the order in which backtracking tries them. The first
  element is the match that \<^verbatim>\<open>exec\<close> reports. An iteration of a quantifier that consumes
  nothing is rejected, as in the language. Under the flag \<^verbatim>\<open>i\<close> a literal matches in
  either case (no pattern with that flag has a bracket class).
\<close>

datatype atom = Lit char | Space | WordChar | Digit | Dot
  | Class "(char \<times> char) list" | NotClass "(char \<times> char) list"

datatype regex = Eps | Atom atom | Seq regex regex | Star regex | StarLazy regex
  | Opt regex | Group nat regex

type_synonym captures = "nat \<rightharpoonup> string"

type_synonym mstate = "string \<times> captures"

definition inClass :: "(char \<times> char) list \<Rightarrow> char \<Rightarrow> bool" where
  "inClass rs c = list_ex (\<lambda>(lo, hi). inRange lo hi c) rs"

fun atomMatches :: "bool \<Rightarrow> atom \<Rightarrow> char \<Rightarrow> bool" where
  "atomMatches ic (Lit l) c = (if ic then toLowerChar c = toLowerChar l else c = l)"
| "atomMatches ic Space c = isWhiteSpace c"
| "atomMatches ic WordChar c = isWordChar c"
| "atomMatches ic Digit c = isDigit c"
| "atomMatches ic Dot c = (\<not> isLineTerminator c)"
| "atomMatches ic (Class rs) c = inClass rs c"
| "atomMatches ic (NotClass rs) c = (\<not> inClass rs c)"

fun run :: "bool \<Rightarrow> regex \<Rightarrow> mstate \<Rightarrow> mstate list" where
  "run ic Eps st = [st]"
| "run ic (Atom a) (s, cs) =
     (case s of [] \<Rightarrow> [] | c # t \<Rightarrow> if atomMatches ic a c then [(t, cs)] else [])"
| "run ic (Seq r1 r2) st = concat (map (run ic r2) (run ic r1 st))"
| "run ic (Star r) (s, cs) =
     concat (map (\<lambda>(s', cs'). if length s' < length s then run ic (Star r) (s', cs') else [])
                 (run ic r (s, cs))) @ [(s, cs)]"
| "run ic (StarLazy r) (s, cs) =
     (s, cs) #
     concat (map (\<lambda>(s', cs'). if length s' < length s then run ic (StarLazy r) (s', cs') else [])
                 (run ic r (s, cs)))"
| "run ic (Opt r) (s, cs) =
     filter (\<lambda>(s', cs'). length s' < length s) (run ic r (s, cs)) @ [(s, cs)]"
| "run ic (Group n r) (s, cs) =
     map (\<lambda>(s', cs'). (s', cs'(n \<mapsto> take (length s - length s') s))) (run ic r (s, cs))"

text \<open>Pattern syntax: a literal word, a sequence, \<^verbatim>\<open>+\<close>, and the class of one character.\<close>

fun lit :: "string \<Rightarrow> regex" where
  "lit [] = Eps"
| "lit (c # cs) = Seq (Atom (Lit c)) (lit cs)"

fun seqs :: "regex list \<Rightarrow> regex" where
  "seqs [] = Eps"
| "seqs (r # rs) = Seq r (seqs rs)"

definition Plus :: "regex \<Rightarrow> regex" where
  "Plus r = Seq r (Star r)"

text \<open>A regular expression object: the pattern and its \<^verbatim>\<open>i\<close> flag. The \<^verbatim>\<open>g\<close> flag is
  the choice between \<open>regexMatch\<close> (first match) and \<open>regexMatchAll\<close> (every match).\<close>

record regexp =
  pattern :: regex
  ignoreCase :: bool

text \<open>The leftmost match at or after the start of \<open>s\<close>: the number of characters
  skipped, the rest of the input after the match, and the captures.\<close>

fun search :: "regexp \<Rightarrow> string \<Rightarrow> (nat \<times> mstate) option" where
  "search re s =
     (case run (ignoreCase re) (pattern re) (s, Map.empty) of
        st # _ \<Rightarrow> Some (0, st)
      | [] \<Rightarrow> (case s of [] \<Rightarrow> None
               | c # t \<Rightarrow> map_option (\<lambda>(k, st). (Suc k, st)) (search re t)))"

text \<open>A match as the program reads it: the matched text (\<^verbatim>\<open>m[0]\<close>) and the captures.\<close>

record rmatch =
  matched :: string
  groups :: captures

definition regexTest :: "regexp \<Rightarrow> string \<Rightarrow> bool" where
  "regexTest re s = (search re s \<noteq> None)"

definition regexMatch :: "regexp \<Rightarrow> string \<Rightarrow> rmatch option" where
  "regexMatch re s =
     (case search re s of
        None \<Rightarrow> None
      | Some (k, (rest, cs)) \<Rightarrow>
          Some \<lparr>matched = take (length s - k - length rest) (drop k s), groups = cs\<rparr>)"

text \<open>Every match, left to right, as \<^verbatim>\<open>s.match(/../g)\<close> and a loop over \<^verbatim>\<open>exec\<close> see them:
  the search resumes where the last match ended, one character further after an empty
  match. The patterns of the service all begin with a literal text, so none of them
  matches the empty string and the loops over \<^verbatim>\<open>exec\<close> end.\<close>

function regexMatchAll :: "regexp \<Rightarrow> string \<Rightarrow> rmatch list" where
  "regexMatchAll re s =
     (case search re s of
        None \<Rightarrow> []
      | Some (k, (rest, cs)) \<Rightarrow>
          \<lparr>matched = take (length s - k - length rest) (drop k s), groups = cs\<rparr> #
          (if length rest < length s - k then regexMatchAll re rest
           else (case drop k s of [] \<Rightarrow> [] | c # t \<Rightarrow> regexMatchAll re t)))"
  by pat_completeness auto
termination
proof (relation "measure (\<lambda>(re, s). length s)")
  show "wf (measure (\<lambda>(re, s). length s))" by simp
next
  fix re :: regexp and s rest :: string and k :: nat
  assume "length rest < length s - k"
  then show "((re, rest), (re, s)) \<in> measure (\<lambda>(re, s). length s)" by simp
next
  fix re :: regexp and s t :: string and k :: nat and c :: char
  assume "drop k s = c # t"
  then have "length (drop k s) = Suc (length t)" by simp
  then show "((re, t), (re, s)) \<in> measure (\<lambda>(re, s). length s)" by simp
qed

text \<open>A capture read as a string: a group that took no part reads \<^verbatim>\<open>undefined\<close>.\<close>

definition group :: "rmatch \<Rightarrow> nat \<Rightarrow> string" where
  "group m i = (case groups m i of None \<Rightarrow> ''undefined'' | Some g \<Rightarrow> g)"

text \<open>\<^verbatim>\<open>s.replace(re, '')\<close> with the flag \<^verbatim>\<open>g\<close> and a replacement without \<^verbatim>\<open>$\<close>: every
  match is replaced.\<close>

function regexReplaceAll :: "regexp \<Rightarrow> string \<Rightarrow> string \<Rightarrow> string" where
  "regexReplaceAll re s repl =
     (case search re s of
        None \<Rightarrow> s
      | Some (k, (rest, cs)) \<Rightarrow>
          take k s @ repl @
          (if length rest < length s - k then regexReplaceAll re rest repl
           else (case drop k s of [] \<Rightarrow> [] | c # t \<Rightarrow> c # regexReplaceAll re t repl)))"
  by pat_completeness auto
termination
proof (relation "measure (\<lambda>(re, s, repl). length s)")
  show "wf (measure (\<lambda>(re, s, repl). length s))" by simp
next
  fix re :: regexp and s rest repl :: string and k :: nat
  assume "length rest < length s - k"
  then show "((re, rest, repl), (re, s, repl)) \<in> measure (\<lambda>(re, s, repl). length s)" by simp
next
  fix re :: regexp and s t repl :: string and k :: nat and c :: char
  assume "drop k s = c # t"
  then have "length (drop k s) = Suc (length t)" by simp
  then show "((re, t, repl), (re, s, repl)) \<in> measure (\<lambda>(re, s, repl). length s)" by simp
qed

text \<open>\<^verbatim>\<open>s.replace(re, repl)\<close> without the flag \<^verbatim>\<open>g\<close>: the first match is replaced by
  the expansion of \<open>repl\<close>, in which \<^verbatim>\<open>$$\<close> is a dollar sign, \<^verbatim>\<open>$&\<close> the matched text,
  \<^verbatim>\<open>$`\<close> the text before it and \<^verbatim>\<open>$'\<close> the text after it. The patterns replaced by the
  service have no group, so that \<^verbatim>\<open>$1\<close> and the like stand for themselves.\<close>

fun getSubstitution :: "string \<Rightarrow> string \<Rightarrow> string \<Rightarrow> string \<Rightarrow> string" where
  "getSubstitution m pre post (c # d # t) =
     (if c = CHR ''$'' \<and> d = CHR ''$'' then CHR ''$'' # getSubstitution m pre post t
      else if c = CHR ''$'' \<and> d = CHR ''&'' then m @ getSubstitution m pre post t
      else if c = CHR ''$'' \<and> d = CHR ''`'' then pre @ getSubstitution m pre post t
      else if c = CHR ''$'' \<and> d = CHR 0x27 then post @ getSubstitution m pre post t
      else c # getSubstitution m pre post (d # t))"
| "getSubstitution m pre post t = t"

definition regexReplaceFirst :: "regexp \<Rightarrow> string \<Rightarrow> string \<Rightarrow> string" where
  "regexReplaceFirst re s repl =
     (case search re s of
        None \<Rightarrow> s
      | Some (k, (rest, cs)) \<Rightarrow>
          take k s @
          getSubstitution (take (length s - k - length rest) (drop k s)) (take k s) rest repl @
          rest)"

subsection \<open>Data of the service\<close>

text \<open>\<^verbatim>\<open>ProgrammingLanguage\<close> is declared as
  \<^verbatim>\<open>'javascript' | 'python' | 'java' | 'cpp'\<close> and the service also compares the tag with
  \<^verbatim>\<open>'c'\<close>; the page starts with \<^verbatim>\<open>'javascript'\<close> selected.\<close>

datatype ProgrammingLanguage = JavaScript | Python | Java | Cpp | CLang

datatype Status = Success | Error | Running | Timeout

record ExecutionResult =
  status :: Status
  "output" :: string
  executionTime :: "int option"

record TimeComplexity =
  best :: string
  average :: string
  worst :: string

record ComplexityData =
  timeComplexity :: TimeComplexity
  spaceComplexity :: string
  analysis :: string

text \<open>What a call of \<^verbatim>\<open>executeCode\<close> reads from its surroundings: the value of
  \<^verbatim>\<open>Math.random()\<close>, and \<^verbatim>\<open>Date.now()\<close> when the call starts and when the result is
  built.\<close>

record Env =
  random :: real
  startTime :: int
  endTime :: int

subsection \<open>The patterns\<close>

definition ws :: regex where
  "ws = Star (Atom Space)"

definition ch :: "char \<Rightarrow> regex" where
  "ch c = Atom (Lit c)"

definition quote :: regex where
  \<open>quote = Atom (Class [(CHR ''"'', CHR ''"''), (CHR 0x27, CHR 0x27)])\<close>

definition identChar :: regex where
  "identChar = Atom (Class [(CHR ''a'', CHR ''z''), (CHR ''A'', CHR ''Z''),
                           (CHR ''0'', CHR ''9''), (CHR ''_'', CHR ''_'')])"

text \<open>\<^verbatim>\<open>/while\s+True/i\<close> and \<^verbatim>\<open>/while\s*\(\s*true\s*\)/i\<close>\<close>

definition whileTrueRegex :: regexp where
  "whileTrueRegex =
     \<lparr>pattern = seqs [lit ''while'', Plus (Atom Space), lit ''True''], ignoreCase = True\<rparr>"

definition whileTrueParenRegex :: regexp where
  "whileTrueParenRegex =
     \<lparr>pattern = seqs [lit ''while'', ws, ch CHR ''('', ws, lit ''true'', ws, ch CHR '')''],
      ignoreCase = True\<rparr>"

text \<open>\<^verbatim>\<open>/\{/g\<close> and \<^verbatim>\<open>/\}/g\<close>\<close>

definition openBraceRegex :: regexp where
  "openBraceRegex = \<lparr>pattern = ch CHR ''{'', ignoreCase = False\<rparr>"

definition closeBraceRegex :: regexp where
  "closeBraceRegex = \<lparr>pattern = ch CHR ''}'', ignoreCase = False\<rparr>"

text \<open>\<^verbatim>\<open>/print\s*\(\s*([^()]*?)\s*\)/g\<close>\<close>

definition pyPrintRegex :: regexp where
  "pyPrintRegex =
     \<lparr>pattern = seqs [lit ''print'', ws, ch CHR ''('', ws,
        Group 1 (StarLazy (Atom (NotClass [(CHR ''('', CHR ''(''), (CHR '')'', CHR '')'')]))),
        ws, ch CHR '')''],
      ignoreCase = False\<rparr>"

text \<open>\<^verbatim>\<open>/fib\w*\s*\(\s*(\d+)\s*\)/\<close>, and the same with the flag \<^verbatim>\<open>i\<close>\<close>

definition fibCall :: regex where
  "fibCall = seqs [lit ''fib'', Star (Atom WordChar), ws, ch CHR ''('', ws,
                   Group 1 (Plus (Atom Digit)), ws, ch CHR '')'']"

definition fibArgRegex :: regexp where
  "fibArgRegex = \<lparr>pattern = fibCall, ignoreCase = False\<rparr>"

definition fibRegex :: regexp where
  "fibRegex = \<lparr>pattern = fibCall, ignoreCase = True\<rparr>"

text \<open>\<^verbatim>\<open>/['"]/g\<close>\<close>

definition quoteRegex :: regexp where
  "quoteRegex = \<lparr>pattern = quote, ignoreCase = False\<rparr>"

text \<open>\<^verbatim>\<open>/System\.out\.println\s*\(\s*["']?(.*?)["']?\s*\)/g\<close>,
  \<^verbatim>\<open>/System\.out\.print\s*\(\s*["']?(.*?)["']?\s*\)/g\<close> and
  \<^verbatim>\<open>/System\.out\.print(?:ln)?\s*\(\s*([a-zA-Z0-9_]+)\s*\)/g\<close>\<close>

definition printlnRegex :: regexp where
  "printlnRegex =
     \<lparr>pattern = seqs [lit ''System.out.println'', ws, ch CHR ''('', ws, Opt quote,
        Group 1 (StarLazy (Atom Dot)), Opt quote, ws, ch CHR '')''],
      ignoreCase = False\<rparr>"

definition printRegex :: regexp where
  "printRegex =
     \<lparr>pattern = seqs [lit ''System.out.print'', ws, ch CHR ''('', ws, Opt quote,
        Group 1 (StarLazy (Atom Dot)), Opt quote, ws, ch CHR '')''],
      ignoreCase = False\<rparr>"

definition printVarRegex :: regexp where
  "printVarRegex =
     \<lparr>pattern = seqs [lit ''System.out.print'', Opt (lit ''ln''), ws, ch CHR ''('', ws,
        Group 1 (Plus identChar), ws, ch CHR '')''],
      ignoreCase = False\<rparr>"

text \<open>\<^verbatim>\<open>/cout\s*<<\s*["']?(.*?)["']?(?:\s*<<\s*endl)?/g\<close> and
  \<^verbatim>\<open>/cout\s*<<\s*([a-zA-Z0-9_]+)/g\<close>\<close>

definition coutRegex :: regexp where
  "coutRegex =
     \<lparr>pattern = seqs [lit ''cout'', ws, lit ''<<'', ws, Opt quote,
        Group 1 (StarLazy (Atom Dot)), Opt quote,
        Opt (seqs [ws, lit ''<<'', ws, lit ''endl''])],
      ignoreCase = False\<rparr>"

definition coutVarRegex :: regexp where
  "coutVarRegex =
     \<lparr>pattern = seqs [lit ''cout'', ws, lit ''<<'', ws, Group 1 (Plus identChar)],
      ignoreCase = False\<rparr>"

text \<open>\<^verbatim>\<open>/printf\s*\(\s*["']([^%]*?)["'](?:\s*,\s*.*?)?\s*\)/g\<close> and
  \<^verbatim>\<open>/printf\s*\(\s*["'](.*?)["']\s*,\s*(.*?)\s*\)/g\<close>\<close>

definition printfRegex :: regexp where
  "printfRegex =
     \<lparr>pattern = seqs [lit ''printf'', ws, ch CHR ''('', ws, quote,
        Group 1 (StarLazy (Atom (NotClass [(CHR ''%'', CHR ''%'')]))), quote,
        Opt (seqs [ws, ch CHR '','', ws, StarLazy (Atom Dot)]), ws, ch CHR '')''],
      ignoreCase = False\<rparr>"

definition formatPrintfRegex :: regexp where
  "formatPrintfRegex =
     \<lparr>pattern = seqs [lit ''printf'', ws, ch CHR ''('', ws, quote,
        Group 1 (StarLazy (Atom Dot)), quote, ws, ch CHR '','', ws,
        Group 2 (StarLazy (Atom Dot)), ws, ch CHR '')''],
      ignoreCase = False\<rparr>"

text \<open>\<^verbatim>\<open>/%d/\<close>, \<^verbatim>\<open>/%s/\<close> and \<^verbatim>\<open>/%f/\<close>\<close>

definition wordRegex :: "string \<Rightarrow> regexp" where
  "wordRegex w = \<lparr>pattern = lit w, ignoreCase = False\<rparr>"

text \<open>\<^verbatim>\<open>/for\s*\(/g\<close> and \<^verbatim>\<open>/while\s*\(/g\<close>\<close>

definition forOpenRegex :: regexp where
  "forOpenRegex = \<lparr>pattern = seqs [lit ''for'', ws, ch CHR ''(''], ignoreCase = False\<rparr>"

definition whileOpenRegex :: regexp where
  "whileOpenRegex = \<lparr>pattern = seqs [lit ''while'', ws, ch CHR ''(''], ignoreCase = False\<rparr>"

subsection \<open>Syntax validation\<close>

definition EXECUTION_TIMEOUT :: int where
  "EXECUTION_TIMEOUT = 5000"

definition braceMismatch :: "string \<Rightarrow> bool" where
  "braceMismatch code =
     (length (regexMatchAll openBraceRegex code) \<noteq> length (regexMatchAll closeBraceRegex code))"

definition detectSyntaxErrors :: "string \<Rightarrow> ProgrammingLanguage \<Rightarrow> string option" where
  \<open>detectSyntaxErrors code language =
     (if (language = Python \<and> regexTest whileTrueRegex code \<and> \<not> strIncludes code ''break'') \<or>
         ((language = Java \<or> language = Cpp \<or> language = CLang) \<and>
          regexTest whileTrueParenRegex code \<and> \<not> strIncludes code ''break'')
      then Some ''Potential infinite loop detected: while loop with no break condition''
      else if language = Python then
        (if strIncludes code ''print('' \<and> \<not> strIncludes code '')''
         then Some ''SyntaxError: unexpected EOF while parsing''
         else if (strIncludes code ''def '' \<or> strIncludes code ''if '' \<or> strIncludes code ''for '') \<and>
                 \<not> strIncludes code '':''
         then Some ''SyntaxError: expected ":"''
         else if strIncludes code ''input('' \<and> \<not> strIncludes code '')''
         then Some ''SyntaxError: input statement is missing closing parenthesis''
         else None)
      else if language = Java then
        (if braceMismatch code then Some ''error: mismatched curly braces''
         else if \<not> strIncludes code ''class'' then Some ''error: class declaration missing''
         else if strIncludes code ''public static void main'' \<and> \<not> strIncludes code ''{''
         then Some ''error: main method body missing''
         else None)
      else if language = Cpp \<or> language = CLang then
        (if braceMismatch code then Some ''error: mismatched curly braces''
         else if language = Cpp \<and> strIncludes code ''cout'' \<and> \<not> strIncludes code ''iostream''
         then Some ''error: iostream header missing for cout''
         else if language = CLang \<and> strIncludes code ''printf'' \<and> \<not> strIncludes code ''stdio.h''
         then Some ''error: stdio.h header missing for printf''
         else if \<not> strIncludes code ''main'' then Some ''error: main function missing''
         else None)
      else None)\<close>

subsection \<open>Fibonacci\<close>

text \<open>The loop of \<^verbatim>\<open>calculateFibonacci\<close>:
  \<^verbatim>\<open>for (let i = 2; i <= n; i++) { const c = a + b; a = b; b = c; } return b;\<close>\<close>

partial_function (option) fibLoop :: "number \<Rightarrow> number \<Rightarrow> number \<Rightarrow> number \<Rightarrow> number option" where
  "fibLoop i n a b =
     (if numLe i n then fibLoop (numAdd i (Num 1)) n b (numAdd a b) else Some b)"

declare fibLoop.simps [code]

definition calculateFibonacci :: "number \<Rightarrow> number option" where
  "calculateFibonacci n =
     (if numLe n (Num 0) then Some (Num 0)
      else if n = Num 1 then Some (Num 1)
      else fibLoop (Num 2) n (Num 0) (Num 1))"


definition isFibonacci :: "string \<Rightarrow> ProgrammingLanguage \<Rightarrow> bool" where
  "isFibonacci code language =
     ((strIncludes (strToLowerCase code) ''fibonacci'' \<or> strIncludes (strToLowerCase code) ''fib'') \<and>
      (((strIncludes code ''n-1'' \<or> strIncludes code ''n - 1'') \<and>
        (strIncludes code ''n-2'' \<or> strIncludes code ''n - 2'')) \<or>
       (strIncludes code ''a + b'' \<or> strIncludes code ''a+b'')))"

text \<open>\<^verbatim>\<open>match && match[1]\<close>: the group took part and is not the empty string.\<close>

definition truthyGroup :: "rmatch \<Rightarrow> nat \<Rightarrow> bool" where
  "truthyGroup m i = (case groups m i of None \<Rightarrow> False | Some g \<Rightarrow> g \<noteq> [])"

definition fibArgument :: "string \<Rightarrow> number" where
  "fibArgument code =
     (case regexMatch fibRegex code of
        None \<Rightarrow> Num 10
      | Some m \<Rightarrow> if truthyGroup m 1 then parseInt (group m 1) else Num 10)"

definition simulateFibonacci :: "string \<Rightarrow> ProgrammingLanguage \<Rightarrow> string option" where
  "simulateFibonacci code language =
     (let n = fibArgument code in
      case calculateFibonacci n of
        None \<Rightarrow> None
      | Some result \<Rightarrow>
          Some (if language = Python \<and> strIncludes code ''print'' then numberToString result
                else if language = Java \<and> strIncludes code ''System.out.print''
                then numberToString result
                else if language = Cpp \<and> strIncludes code ''cout'' then numberToString result
                else if language = CLang \<and> strIncludes code ''printf'' then numberToString result
                else ''Input: n = '' @ numberToString n @ ''\<newline>Fibonacci('' @
                     numberToString n @ '') = '' @ numberToString result))"

subsection \<open>Input and print statements\<close>

definition hasInputStatements :: "string \<Rightarrow> ProgrammingLanguage \<Rightarrow> bool" where
  "hasInputStatements code language =
     (if language = Python then strIncludes code ''input(''
      else if language = Java then strIncludes code ''Scanner'' \<and> strIncludes code ''.next''
      else if language = Cpp then strIncludes code ''cin >>''
      else if language = CLang then strIncludes code ''scanf''
      else False)"

definition hasArithmetic :: "string \<Rightarrow> bool" where
  "hasArithmetic code =
     (strIncludes code ''+'' \<or> strIncludes code ''-'' \<or> strIncludes code ''*'' \<or> strIncludes code ''/'')"

definition simulatedInput :: "string \<Rightarrow> bool \<Rightarrow> string" where
  "simulatedInput code echoed =
     (if echoed then
        ''Simulated input: 42\<newline>Output: 42\<newline>'' @
        (if hasArithmetic code then ''Calculated result: 84'' else [])
      else ''Simulated input: 42'')"

definition simulateInputExecution :: "string \<Rightarrow> ProgrammingLanguage \<Rightarrow> string" where
  "simulateInputExecution code language =
     (if language = Python
      then simulatedInput code (strIncludes code ''input('' \<and> strIncludes code ''print('')
      else if language = Java
      then simulatedInput code (strIncludes code ''Scanner'' \<and> strIncludes code ''System.out.print'')
      else if language = Cpp
      then simulatedInput code (strIncludes code ''cin >>'' \<and> strIncludes code ''cout <<'')
      else if language = CLang
      then simulatedInput code (strIncludes code ''scanf'' \<and> strIncludes code ''printf'')
      else [])"

text \<open>The body of a loop \<^verbatim>\<open>while ((match = re.exec(code)) !== null) { output += ... }\<close>
  is a function of the match; the loop appends its results, and does not return when one
  of them does not.\<close>

fun appendAll :: "('a \<Rightarrow> string option) \<Rightarrow> 'a list \<Rightarrow> string option" where
  "appendAll f [] = Some []"
| "appendAll f (x # xs) =
     (case f x of
        None \<Rightarrow> None
      | Some a \<Rightarrow> (case appendAll f xs of None \<Rightarrow> None | Some b \<Rightarrow> Some (a @ b)))"

definition pyPrintLine :: "rmatch \<Rightarrow> string option" where
  \<open>pyPrintLine m =
     (let printContent = strTrim (group m 1) in
      if strIncludes printContent ''fibonacci'' \<or> strIncludes printContent ''fib'' then
        (case regexMatch fibArgRegex printContent of
           None \<Rightarrow> Some ''55\<newline>''
         | Some fibMatch \<Rightarrow>
             if truthyGroup fibMatch 1 then
               (case calculateFibonacci (parseInt (group fibMatch 1)) of
                  None \<Rightarrow> None
                | Some r \<Rightarrow> Some (numberToString r @ ''\<newline>''))
             else Some ''55\<newline>'')
      else if \<not> strStartsWith printContent ''"'' \<and> \<not> strStartsWith printContent [CHR 0x27]
      then Some ''42\<newline>''
      else Some (regexReplaceAll quoteRegex printContent [] @ ''\<newline>''))\<close>

definition coutLine :: "string \<Rightarrow> rmatch \<Rightarrow> string" where
  "coutLine code m =
     (if strIncludes code ''endl'' \<or> strIncludes code [CHR 0x5C, CHR ''n'']
      then group m 1 @ ''\<newline>'' else group m 1)"

definition coutVarLine :: "rmatch \<Rightarrow> string" where
  "coutVarLine m =
     (if group m 1 \<noteq> ''endl'' then ''Variable '' @ group m 1 @ '': 42\<newline>'' else [])"

text \<open>\<^verbatim>\<open>args[0] || dflt\<close>, where \<^verbatim>\<open>args\<close> are the trimmed pieces of the second group.\<close>

definition firstArgOr :: "rmatch \<Rightarrow> string \<Rightarrow> string" where
  "firstArgOr m dflt =
     (case map strTrim (strSplit CHR '','' (group m 2)) of
        [] \<Rightarrow> dflt
      | a # as \<Rightarrow> if a = [] then dflt else a)"

definition formatPrintfLine :: "rmatch \<Rightarrow> string" where
  "formatPrintfLine m =
     (let f0 = group m 1;
          f1 = (if strIncludes f0 ''%d''
                then regexReplaceFirst (wordRegex ''%d'') f0 (firstArgOr m ''42'') else f0);
          f2 = (if strIncludes f1 ''%s''
                then regexReplaceFirst (wordRegex ''%s'') f1 (firstArgOr m ''text'') else f1);
          f3 = (if strIncludes f2 ''%f''
                then regexReplaceFirst (wordRegex ''%f'') f2 (firstArgOr m ''42.0'') else f2)
      in f3 @ ''\<newline>'')"

definition extractPrintStatements :: "string \<Rightarrow> ProgrammingLanguage \<Rightarrow> string option" where
  "extractPrintStatements code language =
     (if language = Python then
        map_option strTrim (appendAll pyPrintLine (regexMatchAll pyPrintRegex code))
      else if language = Java then
        Some (strTrim
          (concat (map (\<lambda>m. group m 1 @ ''\<newline>'') (regexMatchAll printlnRegex code)) @
           concat (map (\<lambda>m. group m 1) (regexMatchAll printRegex code)) @
           concat (map (\<lambda>m. ''Variable '' @ group m 1 @ '': 42\<newline>'')
                       (regexMatchAll printVarRegex code))))
      else if language = Cpp then
        Some (strTrim
          (concat (map (coutLine code) (regexMatchAll coutRegex code)) @
           concat (map coutVarLine (regexMatchAll coutVarRegex code))))
      else if language = CLang then
        Some (strTrim
          (concat (map (\<lambda>m. group m 1 @ ''\<newline>'') (regexMatchAll printfRegex code)) @
           concat (map formatPrintfLine (regexMatchAll formatPrintfRegex code))))
      else Some (strTrim []))"

subsection \<open>The other detectors and their outputs\<close>

definition isBubbleSort :: "string \<Rightarrow> ProgrammingLanguage \<Rightarrow> bool" where
  "isBubbleSort code language =
     (2 \<le> length (regexMatchAll forOpenRegex code) \<and>
      (strIncludes code ''swap'' \<or> (strIncludes code ''temp'' \<and> strIncludes code ''>'')))"

definition simulateBubbleSort :: "ProgrammingLanguage \<Rightarrow> string" where
  "simulateBubbleSort language =
     (if language = Java
      then ''Original array: [5, 1, 4, 2, 8]\<newline>Sorted array: [1, 2, 4, 5, 8]''
      else if language = Python
      then ''Original array: [5, 1, 4, 2, 8]\<newline>Sorted array: [1, 2, 4, 5, 8]''
      else if language = Cpp \<or> language = CLang
      then ''Original array: 5 1 4 2 8\<newline>Sorted array: 1 2 4 5 8''
      else [])"

definition isSelectionSort :: "string \<Rightarrow> ProgrammingLanguage \<Rightarrow> bool" where
  "isSelectionSort code language =
     (2 \<le> length (regexMatchAll forOpenRegex code) \<and>
      ((strIncludes code ''min'' \<or> strIncludes code ''minimum'') \<or>
       (strIncludes code ''swap'' \<or> (strIncludes code ''temp'' \<and> strIncludes code ''=''))))"

definition simulateSelectionSort :: "ProgrammingLanguage \<Rightarrow> string" where
  "simulateSelectionSort language =
     (if language = Java
      then ''Original array: [5, 1, 4, 2, 8]\<newline>Sorted array: [1, 2, 4, 5, 8]''
      else if language = Python
      then ''Original array: [5, 1, 4, 2, 8]\<newline>Sorted array: [1, 2, 4, 5, 8]''
      else if language = Cpp \<or> language = CLang
      then ''Original array: 5 1 4 2 8\<newline>Sorted array: 1 2 4 5 8''
      else ''Sorted array: 1 2 4 5 8'')"

definition helloLiteral :: "string \<Rightarrow> bool" where
  \<open>helloLiteral code = (strIncludes code ''"Hello'' \<or> strIncludes code ''\'Hello'')\<close>

definition isHelloWorld :: "string \<Rightarrow> ProgrammingLanguage \<Rightarrow> bool" where
  "isHelloWorld code language =
     (if language = Python then strIncludes code ''print'' \<and> helloLiteral code
      else if language = Java then strIncludes code ''System.out.print'' \<and> helloLiteral code
      else if language = Cpp then strIncludes code ''cout'' \<and> helloLiteral code
      else if language = CLang then strIncludes code ''printf'' \<and> helloLiteral code
      else False)"

definition hasArrayOutput :: "string \<Rightarrow> ProgrammingLanguage \<Rightarrow> bool" where
  "hasArrayOutput code language =
     (strIncludes code ''array'' \<or> strIncludes code ''[]'' \<or> strIncludes code ''list'' \<or>
      (strIncludes code ''for'' \<and> strIncludes code ''print'') \<or>
      (strIncludes code ''for'' \<and> strIncludes code ''cout'') \<or>
      (strIncludes code ''for'' \<and> strIncludes code ''printf'') \<or>
      (strIncludes code ''for'' \<and> strIncludes code ''System.out''))"

definition simulateArrayOutput :: "ProgrammingLanguage \<Rightarrow> string" where
  "simulateArrayOutput language =
     (if language = Python then ''Array/List elements: [1, 2, 3, 4, 5]''
      else if language = Java then ''Array elements: [1, 2, 3, 4, 5]''
      else if language = Cpp \<or> language = CLang then ''Array elements: 1 2 3 4 5''
      else ''Array elements: 1 2 3 4 5'')"

definition hasForLoop :: "string \<Rightarrow> bool" where
  "hasForLoop code = (strIncludes code ''for '' \<or> strIncludes code ''for('')"

definition hasRecursion :: "string \<Rightarrow> bool" where
  "hasRecursion code =
     (strIncludes code ''return'' \<and>
      ((strIncludes code ''('' \<and> strIncludes code '')'') \<or> strIncludes code ''call''))"

definition getDefaultOutput :: "ProgrammingLanguage \<Rightarrow> string" where
  "getDefaultOutput language =
     (if language = Python then ''Program executed successfully.\<newline>Output: 42''
      else if language = Java then ''Program compiled and ran successfully.\<newline>Output: 42''
      else if language = Cpp then ''Program executed successfully.\<newline>Output: 42''
      else if language = CLang then ''Program executed successfully.\<newline>Output: 42''
      else ''Program executed successfully.\<newline>Output: 42'')"

definition isFactorial :: "string \<Rightarrow> ProgrammingLanguage \<Rightarrow> bool" where
  "isFactorial code language =
     ((strIncludes code ''factorial'' \<or> strIncludes code ''Factorial'') \<and>
      (strIncludes code ''n *'' \<or> strIncludes code ''n*'' \<or> strIncludes code ''* n''))"

text \<open>\<^verbatim>\<open>simulateFactorial\<close> returns the same text in each of its four branches, built from
  \<^verbatim>\<open>n = 5\<close> and \<^verbatim>\<open>factorial = 120\<close>.\<close>

definition simulateFactorial :: "ProgrammingLanguage \<Rightarrow> string" where
  "simulateFactorial language =
     ''Input: n = '' @ numberToString (Num 5) @ ''\<newline>Factorial('' @ numberToString (Num 5) @
     '') = '' @ numberToString (Num 120)"

subsection \<open>Execution\<close>

definition simulateExecution :: "string \<Rightarrow> ProgrammingLanguage \<Rightarrow> string option" where
  "simulateExecution code language =
     (if hasInputStatements code language then Some (simulateInputExecution code language)
      else
        (case extractPrintStatements code language of
           None \<Rightarrow> None
         | Some printOutput \<Rightarrow>
             if printOutput \<noteq> [] \<and> strTrim printOutput \<noteq> [] then Some printOutput
             else if isFibonacci code language then simulateFibonacci code language
             else if isBubbleSort code language then Some (simulateBubbleSort language)
             else if isSelectionSort code language then Some (simulateSelectionSort language)
             else if isHelloWorld code language then Some ''Hello, World!''
             else if hasArrayOutput code language then Some (simulateArrayOutput language)
             else if isFactorial code language then Some (simulateFactorial language)
             else if hasForLoop code then Some ''Loop executed successfully.\<newline>Output: 0 1 2 3 4''
             else if hasRecursion code then Some ''Recursive function executed.\<newline>Result: 55''
             else Some (getDefaultOutput language)))"

text \<open>
  \<^verbatim>\<open>executeCode\<close> starts two timers at once: the execution promise waits
  \<^verbatim>\<open>Math.min(800, Math.random() * 1000 + 500)\<close> milliseconds and then validates and
  simulates in one synchronous step, the timeout promise resolves after
  \<^verbatim>\<open>EXECUTION_TIMEOUT\<close> milliseconds, and \<^verbatim>\<open>Promise.race\<close> returns the promise that
  settles first. A timer's callback runs only when no other code runs, so the promise
  whose timer is due first settles first when its synchronous step returns, and no
  promise settles when that step does not return. No operation of that step throws, so
  the \<^verbatim>\<open>catch\<close> branch is not modelled.
\<close>

definition execDelay :: "Env \<Rightarrow> real" where
  "execDelay env = min 800 (random env * 1000 + 500)"

definition executionPromise :: "Env \<Rightarrow> string \<Rightarrow> ProgrammingLanguage \<Rightarrow> ExecutionResult option" where
  "executionPromise env code language =
     (case detectSyntaxErrors code language of
        Some syntaxError \<Rightarrow>
          Some \<lparr>status = Error, output = syntaxError,
                executionTime = Some (endTime env - startTime env)\<rparr>
      | None \<Rightarrow>
          (case simulateExecution code language of
             None \<Rightarrow> None
           | Some out \<Rightarrow>
               Some \<lparr>status = Success, output = out,
                     executionTime = Some (endTime env - startTime env)\<rparr>))"

definition timeoutPromise :: ExecutionResult where
  "timeoutPromise =
     \<lparr>status = Timeout,
      output = ''Execution timed out. Your code may contain an infinite loop or is taking too long to process.'',
      executionTime = Some EXECUTION_TIMEOUT\<rparr>"

definition executeCode :: "Env \<Rightarrow> string \<Rightarrow> ProgrammingLanguage \<Rightarrow> ExecutionResult option" where
  "executeCode env code language =
     (if strTrim code = [] then
        Some \<lparr>status = Error, output = ''No code provided for execution.'',
              executionTime = Some 10\<rparr>
      else if execDelay env < real_of_int EXECUTION_TIMEOUT
      then executionPromise env code language
      else Some timeoutPromise)"

subsection \<open>Complexity analysis\<close>

text \<open>The latest iteration. Its constants \<^verbatim>\<open>hasDynamicProgramming\<close>, \<^verbatim>\<open>hasBinarySearch\<close>,
  \<^verbatim>\<open>hasDivideAndConquer\<close> and \<^verbatim>\<open>hasGreedy\<close> are functions of the snippet here (the fifth,
  \<^verbatim>\<open>hasRecursion\<close>, is computed and never read).\<close>

definition hasDynamicProgramming :: "string \<Rightarrow> bool" where
  "hasDynamicProgramming code =
     (strIncludes code ''memo'' \<or>
      (strIncludes code ''dp'' \<and> (strIncludes code ''array'' \<or> strIncludes code ''[]'')))"

definition hasBinarySearch :: "string \<Rightarrow> bool" where
  "hasBinarySearch code =
     (strIncludes code ''mid'' \<and> strIncludes code ''left'' \<and> strIncludes code ''right'')"

definition hasDivideAndConquer :: "string \<Rightarrow> bool" where
  "hasDivideAndConquer code =
     (strIncludes code ''merge'' \<or> (strIncludes code ''divide'' \<and> strIncludes code ''conquer''))"

definition hasGreedy :: "string \<Rightarrow> bool" where
  "hasGreedy code =
     (strIncludes code ''greedy'' \<or>
      (strIncludes code ''sort'' \<and> strIncludes code ''max'' \<and> strIncludes code ''pick''))"

definition hasFibonacci :: "string \<Rightarrow> ProgrammingLanguage \<Rightarrow> bool" where
  "hasFibonacci code language =
     ((strIncludes (strToLowerCase code) ''fibonacci'' \<or> strIncludes (strToLowerCase code) ''fib'') \<and>
      (((strIncludes code ''n-1'' \<or> strIncludes code ''n - 1'') \<and>
        (strIncludes code ''n-2'' \<or> strIncludes code ''n - 2'')) \<or>
       (strIncludes code ''a + b'' \<or> strIncludes code ''a+b'')))"

text \<open>In \<^verbatim>\<open>isNestedLoops\<close> the operator \<^verbatim>\<open>&&\<close> binds tighter than \<^verbatim>\<open>||\<close>: the count of loop
  openers guards the first alternative only.\<close>

definition isNestedLoops :: "string \<Rightarrow> bool" where
  "isNestedLoops code =
     ((2 \<le> length (regexMatchAll forOpenRegex code) + length (regexMatchAll whileOpenRegex code) \<and>
       (strIncludes code ''for'' \<and> strIncludesFrom code ''for'' (strIndexOf code ''for'' + 3))) \<or>
      (strIncludes code ''while'' \<and>
       strIncludesFrom code ''while'' (strIndexOf code ''while'' + 5)) \<or>
      (strIncludes code ''for'' \<and> strIncludes code ''while'') \<or>
      (strIncludes code ''while'' \<and> strIncludes code ''for''))"

definition hasLoop :: "string \<Rightarrow> bool" where
  "hasLoop code =
     (strIncludes code ''for '' \<or> strIncludes code ''for('' \<or>
      strIncludes code ''while '' \<or> strIncludes code ''while('')"

definition analyzeComplexity :: "string \<Rightarrow> ProgrammingLanguage \<Rightarrow> ComplexityData" where
  "analyzeComplexity code language =
     (if hasFibonacci code language then
        \<lparr>timeComplexity = \<lparr>best = ''O(2^n)'', average = ''O(2^n)'', worst = ''O(2^n)''\<rparr>,
        spaceComplexity = ''O(n)'',
        analysis =
           ''The recursive implementation of Fibonacci has exponential time complexity due to repeated calculations of the same values. Each function call branches into two more calls until reaching the base cases, creating an exponential number of function calls. The space complexity is O(n) due to the maximum recursion depth.''\<rparr>
      else if hasDynamicProgramming code then
        \<lparr>timeComplexity = \<lparr>best = ''O(n)'', average = ''O(n)'', worst = ''O(n)''\<rparr>,
        spaceComplexity = ''O(n)'',
        analysis =
           ''This dynamic programming approach has linear time complexity as it computes each subproblem exactly once and stores the results to avoid redundant calculations. The space complexity is also linear due to the memoization table or DP array.''\<rparr>
      else if hasBinarySearch code then
        \<lparr>timeComplexity = \<lparr>best = ''O(1)'', average = ''O(log n)'', worst = ''O(log n)''\<rparr>,
        spaceComplexity = ''O(1)'',
        analysis =
           ''Binary search has logarithmic time complexity as it divides the search space in half with each comparison. The best case is O(1) when the target is found at the middle position initially. Space complexity is constant as it only uses a fixed number of variables.''\<rparr>
      else if hasDivideAndConquer code then
        \<lparr>timeComplexity = \<lparr>best = ''O(n log n)'', average = ''O(n log n)'', worst = ''O(n log n)''\<rparr>,
        spaceComplexity = ''O(n)'',
        analysis =
           ''This divide and conquer algorithm (likely merge sort or similar) has O(n log n) time complexity. It recursively divides the problem and combines solutions, with log n levels of recursion and n work at each level. The space complexity is O(n) for the auxiliary arrays needed during merging.''\<rparr>
      else if hasGreedy code then
        \<lparr>timeComplexity = \<lparr>best = ''O(n log n)'', average = ''O(n log n)'', worst = ''O(n log n)''\<rparr>,
        spaceComplexity = ''O(1)'',
        analysis =
           ''This greedy algorithm has O(n log n) time complexity dominated by the sorting operation. After sorting, it makes a single pass through the data to make greedy choices. The space complexity is constant if sorting is done in-place.''\<rparr>
      else if isNestedLoops code then
        \<lparr>timeComplexity = \<lparr>best = ''O(n'' @ [CHR 0xB2] @ '')'', average = ''O(n'' @ [CHR 0xB2] @ '')'', worst = ''O(n'' @ [CHR 0xB2] @ '')''\<rparr>,
        spaceComplexity = ''O(1)'',
        analysis =
           ''The code contains nested loops, resulting in quadratic time complexity. The outer loop executes n times, and for each iteration, the inner loop also executes up to n times, leading to approximately n'' @ [CHR 0xB2] @ '' total operations. Space complexity is constant as it only uses a fixed amount of additional memory regardless of input size.''\<rparr>
      else if hasLoop code then
        \<lparr>timeComplexity = \<lparr>best = ''O(n)'', average = ''O(n)'', worst = ''O(n)''\<rparr>,
        spaceComplexity = ''O(1)'',
        analysis =
           ''The code has linear time complexity as it processes each element once with a single loop. Each element requires a constant number of operations, resulting in linear scaling with input size. Space complexity is constant as it uses a fixed amount of memory regardless of input size.''\<rparr>
      else
        \<lparr>timeComplexity = \<lparr>best = ''O(1)'', average = ''O(1)'', worst = ''O(1)''\<rparr>,
        spaceComplexity = ''O(1)'',
        analysis =
           ''The code appears to have constant time complexity as it does not contain loops or recursive calls. It processes a fixed number of operations regardless of input size, resulting in constant time execution.''\<rparr>)"

text \<open>The first iteration of \<^verbatim>\<open>analyzeComplexity\<close>.\<close>

definition analyzeComplexity_first :: "string \<Rightarrow> ProgrammingLanguage \<Rightarrow> ComplexityData" where
  "analyzeComplexity_first code language =
     (if strIncludes code ''fibonacci'' \<and> strIncludes code ''return'' \<and>
         strIncludes code ''n-1'' \<and> strIncludes code ''n-2'' then
        \<lparr>timeComplexity = \<lparr>best = ''O(2^n)'', average = ''O(2^n)'', worst = ''O(2^n)''\<rparr>,
        spaceComplexity = ''O(n)'',
        analysis =
           ''The recursive implementation of Fibonacci has exponential time complexity due to repeated calculations of the same values. Consider using dynamic programming or memoization to improve performance.''\<rparr>
      else
        \<lparr>timeComplexity = \<lparr>best = ''O(1)'', average = ''O(n)'', worst = ''O(n)''\<rparr>,
        spaceComplexity = ''O(1)'',
        analysis =
           ''The code appears to have linear time complexity as it processes each element once. Space complexity is constant as it uses a fixed amount of memory regardless of input size.''\<rparr>)"

text \<open>The second iteration of \<^verbatim>\<open>analyzeComplexity\<close> (\<^verbatim>\<open>src/services/codeService.ts\<close>);
  its loop counts are the numbers of matches of \<^verbatim>\<open>/for/g\<close> and \<^verbatim>\<open>/while/g\<close>.\<close>

definition hasFibonacci_second :: "string \<Rightarrow> bool" where
  "hasFibonacci_second code =
     (strIncludes code ''fibonacci'' \<and>
      (strIncludes code ''return'' \<or> strIncludes code ''return '') \<and>
      (strIncludes code ''n-1'' \<or> strIncludes code ''n - 1'') \<and>
      (strIncludes code ''n-2'' \<or> strIncludes code ''n - 2''))"

definition hasLoop_second :: "string \<Rightarrow> bool" where
  "hasLoop_second code = (strIncludes code ''for'' \<or> strIncludes code ''while'')"

definition hasNestedLoop_second :: "string \<Rightarrow> bool" where
  "hasNestedLoop_second code =
     (1 < length (regexMatchAll (wordRegex ''for'') code) \<or>
      1 < length (regexMatchAll (wordRegex ''while'') code) \<or>
      (strIncludes code ''for'' \<and> strIncludes code ''while''))"

definition analyzeComplexity_second :: "string \<Rightarrow> ProgrammingLanguage \<Rightarrow> ComplexityData" where
  "analyzeComplexity_second code language =
     (if hasFibonacci_second code then
        \<lparr>timeComplexity = \<lparr>best = ''O(2^n)'', average = ''O(2^n)'', worst = ''O(2^n)''\<rparr>,
        spaceComplexity = ''O(n)'',
        analysis =
           ''The recursive implementation of Fibonacci has exponential time complexity due to repeated calculations of the same values. Consider using dynamic programming or memoization to improve performance.''\<rparr>
      else if hasNestedLoop_second code then
        \<lparr>timeComplexity = \<lparr>best = ''O(n'' @ [CHR 0xB2] @ '')'', average = ''O(n'' @ [CHR 0xB2] @ '')'', worst = ''O(n'' @ [CHR 0xB2] @ '')''\<rparr>,
        spaceComplexity = ''O(1)'',
        analysis =
           ''The code contains nested loops, resulting in quadratic time complexity. Each element in the outer loop iterates through all elements in the inner loop.''\<rparr>
      else if hasLoop_second code then
        \<lparr>timeComplexity = \<lparr>best = ''O(n)'', average = ''O(n)'', worst = ''O(n)''\<rparr>,
        spaceComplexity = ''O(1)'',
        analysis =
           ''The code has linear time complexity as it processes each element once with a single loop. Space complexity is constant as it uses a fixed amount of memory regardless of input size.''\<rparr>
      else
        \<lparr>timeComplexity = \<lparr>best = ''O(1)'', average = ''O(1)'', worst = ''O(1)''\<rparr>,
        spaceComplexity = ''O(1)'',
        analysis =
           ''The code appears to have constant time complexity as it does not contain loops or recursive calls. It processes a fixed number of operations regardless of input size.''\<rparr>)"

subsection \<open>Insights\<close>

datatype InsightType = Suggestion | Optimization | Warning

text \<open>An \<^verbatim>\<open>Insight\<close>; a field that is \<^verbatim>\<open>null\<close> or absent is \<open>None\<close>. The field
  \<^verbatim>\<open>code\<close> is \<open>code'\<close> here, \<open>code\<close> being the snippet throughout.\<close>

record Insight =
  type :: InsightType
  title :: string
  description :: string
  code' :: "string option"
  rationale :: "string option"
  impact :: "string option"

text \<open>The code samples, by language.\<close>

definition generateMemoizationCode :: "ProgrammingLanguage \<Rightarrow> string" where
  \<open>generateMemoizationCode language =
     (if language = Python then
        ''# Optimized with memoization\<newline>'' @
        ''def fibonacci(n, memo={}):\<newline>'' @
        ''    if n in memo:\<newline>'' @
        ''        return memo[n]\<newline>'' @
        ''    if n <= 1:\<newline>'' @
        ''        return n\<newline>'' @
        ''    memo[n] = fibonacci(n-1, memo) + fibonacci(n-2, memo)\<newline>'' @
        ''    return memo[n]''
      else if language = Java then
        ''// Optimized with memoization\<newline>'' @
        ''import java.util.HashMap;\<newline>'' @
        ''import java.util.Map;\<newline>'' @
        ''\<newline>'' @
        ''public static int fibonacci(int n) {\<newline>'' @
        ''    return fibMemo(n, new HashMap<>());\<newline>'' @
        ''}\<newline>'' @
        ''\<newline>'' @
        ''private static int fibMemo(int n, Map<Integer, Integer> memo) {\<newline>'' @
        ''    if (memo.containsKey(n)) return memo.get(n);\<newline>'' @
        ''    if (n <= 1) return n;\<newline>'' @
        ''    memo.put(n, fibMemo(n-1, memo) + fibMemo(n-2, memo));\<newline>'' @
        ''    return memo.get(n);\<newline>'' @
        ''}''
      else if language = Cpp then
        ''// Optimized with memoization\<newline>'' @
        ''#include <unordered_map>\<newline>'' @
        ''\<newline>'' @
        ''int fibonacci(int n) {\<newline>'' @
        ''    std::unordered_map<int, int> memo;\<newline>'' @
        ''    return fibMemo(n, memo);\<newline>'' @
        ''}\<newline>'' @
        ''\<newline>'' @
        ''int fibMemo(int n, std::unordered_map<int, int>& memo) {\<newline>'' @
        ''    if (memo.find(n) != memo.end()) return memo[n];\<newline>'' @
        ''    if (n <= 1) return n;\<newline>'' @
        ''    memo[n] = fibMemo(n-1, memo) + fibMemo(n-2, memo);\<newline>'' @
        ''    return memo[n];\<newline>'' @
        ''}''
      else 
        ''// Optimized with memoization\<newline>'' @
        ''int fibMemo(int n, int memo[], int size) {\<newline>'' @
        ''    if (n < size && memo[n] != -1) return memo[n];\<newline>'' @
        ''    if (n <= 1) return n;\<newline>'' @
        ''    \<newline>'' @
        ''    int result = fibMemo(n-1, memo, size) + fibMemo(n-2, memo, size);\<newline>'' @
        ''    if (n < size) memo[n] = result;\<newline>'' @
        ''    return result;\<newline>'' @
        ''}\<newline>'' @
        ''\<newline>'' @
        ''int fibonacci(int n) {\<newline>'' @
        ''    int size = n+1 > 1000 ? 1000 : n+1;\<newline>'' @
        ''    int memo[size];\<newline>'' @
        ''    for (int i = 0; i < size; i++) memo[i] = -1;\<newline>'' @
        ''    return fibMemo(n, memo, size);\<newline>'' @
        ''}'')\<close>

definition generateIterativeFibonacciCode :: "ProgrammingLanguage \<Rightarrow> string" where
  \<open>generateIterativeFibonacciCode language =
     (if language = Python then
        ''# Iterative implementation\<newline>'' @
        ''def fibonacci(n):\<newline>'' @
        ''    if n <= 1:\<newline>'' @
        ''        return n\<newline>'' @
        ''    a, b = 0, 1\<newline>'' @
        ''    for i in range(2, n+1):\<newline>'' @
        ''        c = a + b\<newline>'' @
        ''        a = b\<newline>'' @
        ''        b = c\<newline>'' @
        ''    return b''
      else if language = Java then
        ''// Iterative implementation\<newline>'' @
        ''public static int fibonacci(int n) {\<newline>'' @
        ''    if (n <= 1) return n;\<newline>'' @
        ''    int a = 0, b = 1;\<newline>'' @
        ''    for (int i = 2; i <= n; i++) {\<newline>'' @
        ''        int c = a + b;\<newline>'' @
        ''        a = b;\<newline>'' @
        ''        b = c;\<newline>'' @
        ''    }\<newline>'' @
        ''    return b;\<newline>'' @
        ''}''
      else if language = Cpp \<or> language = CLang then
        ''// Iterative implementation\<newline>'' @
        ''int fibonacci(int n) {\<newline>'' @
        ''    if (n <= 1) return n;\<newline>'' @
        ''    int a = 0, b = 1;\<newline>'' @
        ''    for (int i = 2; i <= n; i++) {\<newline>'' @
        ''        int c = a + b;\<newline>'' @
        ''        a = b;\<newline>'' @
        ''        b = c;\<newline>'' @
        ''    }\<newline>'' @
        ''    return b;\<newline>'' @
        ''}''
      else [])\<close>

definition generateEdgeCaseCode :: "ProgrammingLanguage \<Rightarrow> string" where
  \<open>generateEdgeCaseCode language =
     (if language = Python then
        ''# With edge case handling\<newline>'' @
        ''def process_list(items):\<newline>'' @
        ''    # Handle empty list case\<newline>'' @
        ''    if not items:\<newline>'' @
        ''        return []\<newline>'' @
        ''    \<newline>'' @
        ''    result = []\<newline>'' @
        ''    for item in items:\<newline>'' @
        ''        # Handle None items\<newline>'' @
        ''        if item is None:\<newline>'' @
        ''            continue\<newline>'' @
        ''        result.append(process_item(item))\<newline>'' @
        ''    return result''
      else if language = Java then
        ''// With edge case handling\<newline>'' @
        ''public List<Result> processItems(List<Item> items) {\<newline>'' @
        ''    // Handle null or empty list\<newline>'' @
        ''    if (items == null || items.isEmpty()) {\<newline>'' @
        ''        return Collections.emptyList();\<newline>'' @
        ''    }\<newline>'' @
        ''    \<newline>'' @
        ''    List<Result> results = new ArrayList<>();\<newline>'' @
        ''    for (Item item : items) {\<newline>'' @
        ''        // Handle null items\<newline>'' @
        ''        if (item == null) {\<newline>'' @
        ''            continue;\<newline>'' @
        ''        }\<newline>'' @
        ''        results.add(processItem(item));\<newline>'' @
        ''    }\<newline>'' @
        ''    return results;\<newline>'' @
        ''}''
      else if language = Cpp then
        ''// With edge case handling\<newline>'' @
        ''std::vector<Result> processItems(const std::vector<Item>& items) {\<newline>'' @
        ''    // Handle empty vector\<newline>'' @
        ''    if (items.empty()) {\<newline>'' @
        ''        return {};\<newline>'' @
        ''    }\<newline>'' @
        ''    \<newline>'' @
        ''    std::vector<Result> results;\<newline>'' @
        ''    results.reserve(items.size());\<newline>'' @
        ''    for (const auto& item : items) {\<newline>'' @
        ''        // Handle invalid items\<newline>'' @
        ''        if (!item.isValid()) {\<newline>'' @
        ''            continue;\<newline>'' @
        ''        }\<newline>'' @
        ''        results.push_back(processItem(item));\<newline>'' @
        ''    }\<newline>'' @
        ''    return results;\<newline>'' @
        ''}''
      else 
        ''// With edge case handling\<newline>'' @
        ''Result* processItems(Item* items, int size, int* resultSize) {\<newline>'' @
        ''    // Handle null or empty array\<newline>'' @
        ''    if (items == NULL || size <= 0) {\<newline>'' @
        ''        *resultSize = 0;\<newline>'' @
        ''        return NULL;\<newline>'' @
        ''    }\<newline>'' @
        ''    \<newline>'' @
        ''    // Pre-allocate result array\<newline>'' @
        ''    Result* results = (Result*)malloc(size * sizeof(Result));\<newline>'' @
        ''    int count = 0;\<newline>'' @
        ''    \<newline>'' @
        ''    for (int i = 0; i < size; i++) {\<newline>'' @
        ''        // Handle invalid items\<newline>'' @
        ''        if (!isValid(&items[i])) {\<newline>'' @
        ''            continue;\<newline>'' @
        ''        }\<newline>'' @
        ''        results[count++] = processItem(&items[i]);\<newline>'' @
        ''    }\<newline>'' @
        ''    \<newline>'' @
        ''    *resultSize = count;\<newline>'' @
        ''    return results;\<newline>'' @
        ''}'')\<close>

definition generateEarlyTerminationCode :: "ProgrammingLanguage \<Rightarrow> string" where
  \<open>generateEarlyTerminationCode language =
     (if language = Python then
        ''# With early termination\<newline>'' @
        ''def find_element(items, target):\<newline>'' @
        ''    for i, item in enumerate(items):\<newline>'' @
        ''        for j, sub_item in enumerate(item):\<newline>'' @
        ''            if sub_item == target:\<newline>'' @
        ''                return (i, j)  # Return immediately when found\<newline>'' @
        ''    return None  # Not found''
      else if language = Java then
        ''// With early termination\<newline>'' @
        ''public Coordinates findElement(List<List<Integer>> matrix, int target) {\<newline>'' @
        ''    for (int i = 0; i < matrix.size(); i++) {\<newline>'' @
        ''        List<Integer> row = matrix.get(i);\<newline>'' @
        ''        for (int j = 0; j < row.size(); j++) {\<newline>'' @
        ''            if (row.get(j) == target) {\<newline>'' @
        ''                return new Coordinates(i, j);  // Return immediately when found\<newline>'' @
        ''            }\<newline>'' @
        ''        }\<newline>'' @
        ''    }\<newline>'' @
        ''    return null;  // Not found\<newline>'' @
        ''}''
      else if language = Cpp then
        ''// With early termination\<newline>'' @
        ''std::optional<Coordinates> findElement(const std::vector<std::vector<int>>& matrix, int target) {\<newline>'' @
        ''    for (size_t i = 0; i < matrix.size(); i++) {\<newline>'' @
        ''        for (size_t j = 0; j < matrix[i].size(); j++) {\<newline>'' @
        ''            if (matrix[i][j] == target) {\<newline>'' @
        ''                return Coordinates{i, j};  // Return immediately when found\<newline>'' @
        ''            }\<newline>'' @
        ''        }\<newline>'' @
        ''    }\<newline>'' @
        ''    return std::nullopt;  // Not found\<newline>'' @
        ''}''
      else 
        ''// With early termination\<newline>'' @
        ''int findElement(int** matrix, int rows, int cols, int target, int* row, int* col) {\<newline>'' @
        ''    for (int i = 0; i < rows; i++) {\<newline>'' @
        ''        for (int j = 0; j < cols; j++) {\<newline>'' @
        ''            if (matrix[i][j] == target) {\<newline>'' @
        ''                *row = i;\<newline>'' @
        ''                *col = j;\<newline>'' @
        ''                return 1;  // Found\<newline>'' @
        ''            }\<newline>'' @
        ''        }\<newline>'' @
        ''    }\<newline>'' @
        ''    return 0;  // Not found\<newline>'' @
        ''}'')\<close>

definition generatePreallocationCode :: "ProgrammingLanguage \<Rightarrow> string" where
  \<open>generatePreallocationCode language =
     (if language = Python then
        ''# With pre-allocation\<newline>'' @
        ''def calculate_values(n):\<newline>'' @
        ''    # Pre-allocate the list with None values\<newline>'' @
        ''    results = [None] * n\<newline>'' @
        ''    for i in range(n):\<newline>'' @
        ''        results[i] = i * i\<newline>'' @
        ''    return results''
      else if language = Java then
        ''// With pre-allocation\<newline>'' @
        ''public List<Integer> calculateValues(int n) {\<newline>'' @
        ''    // Pre-allocate ArrayList with initial capacity\<newline>'' @
        ''    List<Integer> results = new ArrayList<>(n);\<newline>'' @
        ''    for (int i = 0; i < n; i++) {\<newline>'' @
        ''        results.add(i * i);\<newline>'' @
        ''    }\<newline>'' @
        ''    return results;\<newline>'' @
        ''}''
      else if language = Cpp then
        ''// With pre-allocation\<newline>'' @
        ''std::vector<int> calculateValues(int n) {\<newline>'' @
        ''    // Reserve capacity before adding elements\<newline>'' @
        ''    std::vector<int> results;\<newline>'' @
        ''    results.reserve(n);\<newline>'' @
        ''    for (int i = 0; i < n; i++) {\<newline>'' @
        ''        results.push_back(i * i);\<newline>'' @
        ''    }\<newline>'' @
        ''    return results;\<newline>'' @
        ''}''
      else 
        ''// With pre-allocation\<newline>'' @
        ''int* calculateValues(int n) {\<newline>'' @
        ''    // Allocate array with exact size needed\<newline>'' @
        ''    int* results = (int*)malloc(n * sizeof(int));\<newline>'' @
        ''    for (int i = 0; i < n; i++) {\<newline>'' @
        ''        results[i] = i * i;\<newline>'' @
        ''    }\<newline>'' @
        ''    return results;\<newline>'' @
        ''}'')\<close>

definition generateBaseCheckCode :: "ProgrammingLanguage \<Rightarrow> string" where
  \<open>generateBaseCheckCode language =
     (if language = Python then
        ''# With base case limit check\<newline>'' @
        ''def fibonacci(n, memo={}):\<newline>'' @
        ''    # Prevent stack overflow with large inputs\<newline>'' @
        ''    if n > 50:\<newline>'' @
        ''        return "Input too large for recursive solution"\<newline>'' @
        ''        \<newline>'' @
        ''    if n in memo:\<newline>'' @
        ''        return memo[n]\<newline>'' @
        ''    if n <= 1:\<newline>'' @
        ''        return n\<newline>'' @
        ''    memo[n] = fibonacci(n-1, memo) + fibonacci(n-2, memo)\<newline>'' @
        ''    return memo[n]''
      else if language = Java then
        ''// With base case limit check\<newline>'' @
        ''public static int fibonacci(int n) {\<newline>'' @
        ''    // Prevent stack overflow with large inputs\<newline>'' @
        ''    if (n > 50) {\<newline>'' @
        ''        throw new IllegalArgumentException("Input too large for recursive solution");\<newline>'' @
        ''    }\<newline>'' @
        ''    \<newline>'' @
        ''    return fibHelper(n, new HashMap<>());\<newline>'' @
        ''}\<newline>'' @
        ''\<newline>'' @
        ''private static int fibHelper(int n, Map<Integer, Integer> memo) {\<newline>'' @
        ''    if (memo.containsKey(n)) return memo.get(n);\<newline>'' @
        ''    if (n <= 1) return n;\<newline>'' @
        ''    memo.put(n, fibHelper(n-1, memo) + fibHelper(n-2, memo));\<newline>'' @
        ''    return memo.get(n);\<newline>'' @
        ''}''
      else if language = Cpp \<or> language = CLang then
        ''// With base case limit check\<newline>'' @
        ''int fibonacci(int n) {\<newline>'' @
        ''    // Prevent stack overflow with large inputs\<newline>'' @
        ''    if (n > 50) {\<newline>'' @
        ''        fprintf(stderr, "Input too large for recursive solution'' @ [CHR 0x5C] @ ''n");\<newline>'' @
        ''        return -1; // Error code\<newline>'' @
        ''    }\<newline>'' @
        ''    \<newline>'' @
        ''    std::unordered_map<int, int> memo;\<newline>'' @
        ''    return fibHelper(n, memo);\<newline>'' @
        ''}\<newline>'' @
        ''\<newline>'' @
        ''int fibHelper(int n, std::unordered_map<int, int>& memo) {\<newline>'' @
        ''    if (memo.find(n) != memo.end()) return memo[n];\<newline>'' @
        ''    if (n <= 1) return n;\<newline>'' @
        ''    memo[n] = fibHelper(n-1, memo) + fibHelper(n-2, memo);\<newline>'' @
        ''    return memo[n];\<newline>'' @
        ''}''
      else [])\<close>

text \<open>
  \<^verbatim>\<open>getAIInsights\<close> fills the array \<^verbatim>\<open>insights\<close> in three steps: the insights of the
  shape of the snippet, then those of the language, and the two generic ones when the
  array is still empty. The parameter \<^verbatim>\<open>complexityData\<close> is kept as the source has it.
\<close>

definition shapeInsights :: "string \<Rightarrow> ProgrammingLanguage \<Rightarrow> Insight list" where
  \<open>shapeInsights code language =
     (if hasFibonacci code language \<and> strIncludes code ''return'' \<and>
         (strIncludes code ''n-1'' \<or> strIncludes code ''n - 1'') \<and>
         (strIncludes code ''n-2'' \<or> strIncludes code ''n - 2'') then
        [\<lparr>type = Optimization,
          title = ''Use Memoization'',
          description =
            ''The current recursive implementation recalculates the same values multiple times, leading to inefficient execution.'',
          code' = Some (generateMemoizationCode language),
          rationale =
            Some (''Memoization stores already computed values, eliminating redundant calculations and significantly improving performance.''),
          impact =
            Some (''Reduces time complexity from exponential O(2^n) to linear O(n), making the algorithm practical for larger inputs.'')\<rparr>,
         \<lparr>type = Optimization,
          title = ''Use Iteration Instead of Recursion'',
          description =
            ''An iterative approach can be more efficient for calculating Fibonacci numbers.'',
          code' = Some (generateIterativeFibonacciCode language),
          rationale =
            Some (''Iterative solutions avoid the overhead of recursive function calls and potential stack overflow issues for large inputs.''),
          impact =
            Some (''Reduces both time and space complexity, while maintaining the same mathematical result.'')\<rparr>,
         \<lparr>type = Warning,
          title = ''Stack Overflow Risk'',
          description =
            ''The current recursive implementation may cause stack overflow for large values of n (typically n > 40-50).'',
          code' = Some (generateBaseCheckCode language),
          rationale =
            Some (''Each recursive call adds a new frame to the call stack. With exponential growth, large inputs quickly exceed available stack space.''),
          impact =
            Some (''The program will crash for moderately large inputs, making it unreliable for production use.'')\<rparr>]
      else if isNestedLoops code then
        [\<lparr>type = Optimization,
          title = ''Consider Time Complexity'',
          description =
            ''Your code contains nested loops, resulting in quadratic O(n'' @ [CHR 0xB2] @ '') time complexity.'',
          code' = None,
          rationale =
            Some (''Nested loops process each element multiple times, which can be inefficient for large datasets.''),
          impact =
            Some (''May lead to performance issues with large inputs. Consider if a more efficient algorithm exists for your specific problem.'')\<rparr>,
         \<lparr>type = Suggestion,
          title = ''Early Termination'',
          description =
            ''Consider adding break conditions to exit loops early when a solution is found.'',
          code' = Some (generateEarlyTerminationCode language),
          rationale =
            Some (''Early termination can significantly improve average-case performance while maintaining correctness.''),
          impact =
            Some (''Could improve performance substantially for cases where the target is found early in the dataset.'')\<rparr>]
      else if hasLoop code then
        [\<lparr>type = Suggestion,
          title = ''Handle Edge Cases'',
          description =
            ''Ensure your loop properly handles edge cases like empty collections or boundary conditions.'',
          code' = Some (generateEdgeCaseCode language),
          rationale =
            Some (''Edge cases are often sources of bugs. Explicit handling improves robustness and readability.''),
          impact =
            Some (''Prevents potential runtime errors and unexpected behavior with unusual inputs.'')\<rparr>] @
        (if strIncludes code ''array'' \<or> strIncludes code ''list'' \<or> strIncludes code ''[]'' then
           [\<lparr>type = Optimization,
          title = ''Consider Pre-allocation'',
          description =
            ''If your code builds a result collection inside a loop, consider pre-allocating its size.'',
          code' = Some (generatePreallocationCode language),
          rationale =
            Some (''Dynamic resizing of collections (like ArrayList or Python lists) can be expensive when done repeatedly.''),
          impact =
            Some (''Improves performance by avoiding multiple memory reallocations during execution.'')\<rparr>]
         else [])
      else [])\<close>

definition languageInsights :: "string \<Rightarrow> ProgrammingLanguage \<Rightarrow> Insight list" where
  \<open>languageInsights code language =
     (if language = Python then
        (if strIncludes code ''for '' \<and> \<not> strIncludes code ''enumerate('' then
           [\<lparr>type = Suggestion,
          title = ''Use enumerate() for Counter Variables'',
          description =
            ''When you need both the index and value in a loop, use enumerate() instead of manual indexing.'',
          code' = Some (''# Instead of:\<newline>'' @
             ''i = 0\<newline>'' @
             ''for item in items:\<newline>'' @
             ''    print(i, item)\<newline>'' @
             ''    i += 1\<newline>'' @
             ''\<newline>'' @
             ''# Use enumerate:\<newline>'' @
             ''for i, item in enumerate(items):\<newline>'' @
             ''    print(i, item)''),
          rationale =
            Some (''enumerate() is more Pythonic and less error-prone than maintaining a separate counter variable.''),
          impact =
            Some (''Improves code readability and reduces the chance of off-by-one errors.'')\<rparr>]
         else []) @
        (if strIncludes code ''if '' \<and> strIncludes code ''else'' \<and> \<not> strIncludes code ''elif'' then
           [\<lparr>type = Suggestion,
          title = ''Consider Using Conditional Expressions'',
          description =
            ''For simple if-else statements that assign values, use Python\'s conditional expressions.'',
          code' = Some (''# Instead of:\<newline>'' @
             ''if condition:\<newline>'' @
             ''    x = value1\<newline>'' @
             ''else:\<newline>'' @
             ''    x = value2\<newline>'' @
             ''\<newline>'' @
             ''# Use:\<newline>'' @
             ''x = value1 if condition else value2''),
          rationale =
            Some (''Conditional expressions are more concise and expressive for simple value assignments.''),
          impact =
            Some (''Reduces code verbosity while maintaining readability for simple conditions.'')\<rparr>]
         else [])
      else if language = Java then
        (if strIncludes code ''for ('' \<and> strIncludes code ''get('' \<and> \<not> strIncludes code ''forEach'' then
           [\<lparr>type = Suggestion,
          title = ''Use Enhanced For Loop or forEach()'',
          description =
            ''For iterating over collections, consider using enhanced for loops or the forEach() method.'',
          code' = Some (''// Instead of:\<newline>'' @
             ''for (int i = 0; i < list.size(); i++) {\<newline>'' @
             ''    Item item = list.get(i);\<newline>'' @
             ''    // process item\<newline>'' @
             ''}\<newline>'' @
             ''\<newline>'' @
             ''// Use:\<newline>'' @
             ''for (Item item : list) {\<newline>'' @
             ''    // process item\<newline>'' @
             ''}\<newline>'' @
             ''\<newline>'' @
             ''// Or:\<newline>'' @
             ''list.forEach(item -> {\<newline>'' @
             ''    // process item\<newline>'' @
             ''});''),
          rationale =
            Some (''Modern Java idioms improve readability and reduce the chance of indexing errors.''),
          impact =
            Some (''Makes code more concise and less error-prone for collection traversal.'')\<rparr>]
         else [])
      else if language = Cpp then
        (if strIncludes code ''for ('' \<and> strIncludes code ''push_back'' \<and> \<not> strIncludes code ''reserve'' then
           [\<lparr>type = Optimization,
          title = ''Reserve Vector Capacity'',
          description =
            ''When building vectors in a loop, reserve capacity upfront if the size is known.'',
          code' = Some (''// Instead of:\<newline>'' @
             ''std::vector<int> result;\<newline>'' @
             ''for (int i = 0; i < n; i++) {\<newline>'' @
             ''    result.push_back(calculate(i));\<newline>'' @
             ''}\<newline>'' @
             ''\<newline>'' @
             ''// Use:\<newline>'' @
             ''std::vector<int> result;\<newline>'' @
             ''result.reserve(n);  // Reserve space for n elements\<newline>'' @
             ''for (int i = 0; i < n; i++) {\<newline>'' @
             ''    result.push_back(calculate(i));\<newline>'' @
             ''}''),
          rationale =
            Some (''Calling reserve() prevents multiple reallocations and copies as the vector grows.''),
          impact =
            Some (''Improves performance by reducing memory management overhead during execution.'')\<rparr>]
         else [])
      else [])\<close>

definition genericInsights :: "Insight list" where
  \<open>genericInsights =
     [\<lparr>type = Suggestion,
          title = ''Add Error Handling'',
          description =
            ''Consider adding error handling to make your code more robust.'',
          code' = None,
          rationale =
            Some (''Proper error handling prevents crashes and improves user experience when unexpected situations occur.''),
          impact =
            Some (''Makes your code more reliable and easier to debug when issues arise.'')\<rparr>,
      \<lparr>type = Suggestion,
          title = ''Add Documentation'',
          description =
            ''Adding comments and documentation can make your code more maintainable.'',
          code' = None,
          rationale =
            Some (''Well-documented code is easier for others (and your future self) to understand and modify.''),
          impact =
            Some (''Improves long-term maintainability and helps onboard new developers to the codebase.'')\<rparr>]\<close>

definition getAIInsights :: "string \<Rightarrow> ProgrammingLanguage \<Rightarrow> ComplexityData \<Rightarrow> Insight list" where
  "getAIInsights code language complexityData =
     (let insights = shapeInsights code language @ languageInsights code language in
      if length insights = 0 then genericInsights else insights)"

text \<open>The second iteration of \<^verbatim>\<open>getAIInsights\<close> (\<^verbatim>\<open>src/services/codeService.ts\<close>): one of
  four fixed lists.\<close>

definition getAIInsights_second :: "string \<Rightarrow> ProgrammingLanguage \<Rightarrow> ComplexityData \<Rightarrow> Insight list" where
  \<open>getAIInsights_second code language complexityData =
     (if strIncludes code ''fibonacci'' \<and> strIncludes code ''return'' \<and>
         (strIncludes code ''n-1'' \<or> strIncludes code ''n - 1'') \<and>
         (strIncludes code ''n-2'' \<or> strIncludes code ''n - 2'') then
        [\<lparr>type = Optimization,
          title = ''Use Memoization'',
          description =
            ''The current recursive implementation recalculates the same values multiple times. Using memoization can reduce time complexity from O(2^n) to O(n).'',
          code' = Some (if language = Python then
             ''# Optimized with memoization\<newline>'' @
             ''def fibonacci(n, memo={}):\<newline>'' @
             ''    if n in memo:\<newline>'' @
             ''        return memo[n]\<newline>'' @
             ''    if n <= 1:\<newline>'' @
             ''        return n\<newline>'' @
             ''    memo[n] = fibonacci(n-1, memo) + fibonacci(n-2, memo)\<newline>'' @
             ''    return memo[n]''
           else if language = Java then
             ''// Optimized with memoization\<newline>'' @
             ''public static int fibonacci(int n, Map<Integer, Integer> memo) {\<newline>'' @
             ''    if (memo.containsKey(n)) return memo.get(n);\<newline>'' @
             ''    if (n <= 1) return n;\<newline>'' @
             ''    memo.put(n, fibonacci(n-1, memo) + fibonacci(n-2, memo));\<newline>'' @
             ''    return memo.get(n);\<newline>'' @
             ''}''
           else if language = Cpp \<or> language = CLang then
             ''// Optimized with memoization\<newline>'' @
             ''int fibonacci(int n, std::unordered_map<int, int>& memo) {\<newline>'' @
             ''    if (memo.find(n) != memo.end()) return memo[n];\<newline>'' @
             ''    if (n <= 1) return n;\<newline>'' @
             ''    memo[n] = fibonacci(n-1, memo) + fibonacci(n-2, memo);\<newline>'' @
             ''    return memo[n];\<newline>'' @
             ''}''
           else 
             ''// Optimized with memoization\<newline>'' @
             ''int fibonacci(int n, int memo[]) {\<newline>'' @
             ''    if (memo[n] != -1) return memo[n];\<newline>'' @
             ''    if (n <= 1) return n;\<newline>'' @
             ''    memo[n] = fibonacci(n-1, memo) + fibonacci(n-2, memo);\<newline>'' @
             ''    return memo[n];\<newline>'' @
             ''}''),
          rationale =
            None,
          impact =
            None\<rparr>,
         \<lparr>type = Optimization,
          title = ''Use Iteration Instead of Recursion'',
          description =
            ''An iterative approach can be more efficient for calculating Fibonacci numbers, avoiding stack overhead and potential stack overflow for large inputs.'',
          code' = Some (if language = Python then
             ''# Iterative implementation\<newline>'' @
             ''def fibonacci(n):\<newline>'' @
             ''    if n <= 1:\<newline>'' @
             ''        return n\<newline>'' @
             ''    a, b = 0, 1\<newline>'' @
             ''    for i in range(2, n+1):\<newline>'' @
             ''        c = a + b\<newline>'' @
             ''        a = b\<newline>'' @
             ''        b = c\<newline>'' @
             ''    return b''
           else if language = Java then
             ''// Iterative implementation\<newline>'' @
             ''public static int fibonacci(int n) {\<newline>'' @
             ''    if (n <= 1) return n;\<newline>'' @
             ''    int a = 0, b = 1;\<newline>'' @
             ''    for (int i = 2; i <= n; i++) {\<newline>'' @
             ''        int c = a + b;\<newline>'' @
             ''        a = b;\<newline>'' @
             ''        b = c;\<newline>'' @
             ''    }\<newline>'' @
             ''    return b;\<newline>'' @
             ''}''
           else if language = Cpp \<or> language = CLang then
             ''// Iterative implementation\<newline>'' @
             ''int fibonacci(int n) {\<newline>'' @
             ''    if (n <= 1) return n;\<newline>'' @
             ''    int a = 0, b = 1;\<newline>'' @
             ''    for (int i = 2; i <= n; i++) {\<newline>'' @
             ''        int c = a + b;\<newline>'' @
             ''        a = b;\<newline>'' @
             ''        b = c;\<newline>'' @
             ''    }\<newline>'' @
             ''    return b;\<newline>'' @
             ''}''
           else 
             ''// Iterative implementation\<newline>'' @
             ''int fibonacci(int n) {\<newline>'' @
             ''    if (n <= 1) return n;\<newline>'' @
             ''    int a = 0, b = 1;\<newline>'' @
             ''    for (int i = 2; i <= n; i++) {\<newline>'' @
             ''        int c = a + b;\<newline>'' @
             ''        a = b;\<newline>'' @
             ''        b = c;\<newline>'' @
             ''    }\<newline>'' @
             ''    return b;\<newline>'' @
             ''}''),
          rationale =
            None,
          impact =
            None\<rparr>,
         \<lparr>type = Warning,
          title = ''Stack Overflow Risk'',
          description =
            ''The current recursive implementation may cause stack overflow for large values of n (typically n > 40-50). Consider adding a base case check for large inputs.'',
          code' = None,
          rationale =
            None,
          impact =
            None\<rparr>]
      else if strIncludes code ''for'' \<or> strIncludes code ''while'' then
        [\<lparr>type = Suggestion,
          title = ''Consider Edge Cases'',
          description =
            ''Make sure your loop handles edge cases correctly, such as empty collections or boundary conditions.'',
          code' = None,
          rationale =
            None,
          impact =
            None\<rparr>,
         \<lparr>type = Optimization,
          title = ''Early Termination'',
          description =
            ''Consider adding early termination conditions to your loop when the goal is achieved before iterating through all elements.'',
          code' = None,
          rationale =
            None,
          impact =
            None\<rparr>]
      else if (language = Python \<and> strIncludes code ''print'') \<or>
              (language = Java \<and> strIncludes code ''System.out'') \<or>
              (language = Cpp \<and> strIncludes code ''cout'') \<or>
              ((language = CLang \<or> language = Cpp) \<and> strIncludes code ''printf'') then
        [\<lparr>type = Suggestion,
          title = ''Add Error Handling'',
          description =
            ''Consider adding error handling around your output statements to make your code more robust.'',
          code' = None,
          rationale =
            None,
          impact =
            None\<rparr>,
         \<lparr>type = Suggestion,
          title = ''Format Output'',
          description =
            ''Use formatting to make your output more readable and structured.'',
          code' = Some (if language = Python then
             ''# Formatted output\<newline>'' @
             ''print(f"The result is: {result}")''
           else if language = Java then
             ''// Formatted output\<newline>'' @
             ''System.out.printf("The result is: %d'' @ [CHR 0x5C] @ ''n", result);''
           else if language = Cpp then
             ''// Formatted output\<newline>'' @
             ''std::cout << "The result is: " << result << std::endl;''
           else 
             ''// Formatted output\<newline>'' @
             ''printf("The result is: %d'' @ [CHR 0x5C] @ ''n", result);''),
          rationale =
            None,
          impact =
            None\<rparr>]
      else
        [\<lparr>type = Suggestion,
          title = ''Add Error Handling'',
          description =
            ''Consider adding error handling to make your code more robust. This will help catch and manage unexpected inputs or runtime errors.'',
          code' = None,
          rationale =
            None,
          impact =
            None\<rparr>,
         \<lparr>type = Suggestion,
          title = ''Add Documentation'',
          description =
            ''Adding comments and documentation can make your code more maintainable and easier for others to understand.'',
          code' = None,
          rationale =
            None,
          impact =
            None\<rparr>])\<close>


subsection \<open>The ordering of the complexity classes\<close>

text \<open>The specification orders the labels
  \<^verbatim>\<open>O(1) < O(log n) < O(n) < O(n log n) < O(n\<twosuperior>) < O(2^n)\<close>. \<open>complexityRank\<close> is the
  position of a label in that chain; a string that is no label has no rank and is
  comparable with nothing.\<close>

definition complexityRank :: "string \<Rightarrow> nat option" where
  "complexityRank l =
     (if l = ''O(1)'' then Some 0
      else if l = ''O(log n)'' then Some 1
      else if l = ''O(n)'' then Some 2
      else if l = ''O(n log n)'' then Some 3
      else if l = ''O(n'' @ [CHR 0xB2] @ '')'' then Some 4
      else if l = ''O(2^n)'' then Some 5
      else None)"

definition classLe :: "string \<Rightarrow> string \<Rightarrow> bool" where
  "classLe x y =
     (case complexityRank x of
        None \<Rightarrow> False
      | Some a \<Rightarrow> (case complexityRank y of None \<Rightarrow> False | Some b \<Rightarrow> a \<le> b))"

definition ordered :: "TimeComplexity \<Rightarrow> bool" where
  "ordered t = (classLe (best t) (average t) \<and> classLe (average t) (worst t))"

section \<open>Properties\<close>

subsection \<open>Strings\<close>

lemma strStartsWith_iff: "strStartsWith s p \<longleftrightarrow> (\<exists>t. s = p @ t)"
  by (induction s p rule: strStartsWith.induct) auto

lemma strIncludes_iff: "strIncludes s sub \<longleftrightarrow> (\<exists>a b. s = a @ sub @ b)"
proof (induction s)
  case Nil
  then show ?case by auto
next
  case (Cons c s)
  show ?case
  proof
    assume "strIncludes (c # s) sub"
    then consider "strStartsWith (c # s) sub" | "strIncludes s sub" by auto
    then show "\<exists>a b. c # s = a @ sub @ b"
    proof cases
      case 1
      then obtain t where "c # s = sub @ t" by (auto simp: strStartsWith_iff)
      then have "c # s = [] @ sub @ t" by simp
      then show ?thesis by blast
    next
      case 2
      then obtain a b where "s = a @ sub @ b" using Cons.IH by blast
      then have "c # s = (c # a) @ sub @ b" by simp
      then show ?thesis by blast
    qed
  next
    assume "\<exists>a b. c # s = a @ sub @ b"
    then obtain a b where ab: "c # s = a @ sub @ b" by blast
    show "strIncludes (c # s) sub"
    proof (cases a)
      case Nil
      then have "strStartsWith (c # s) sub" using ab by (auto simp: strStartsWith_iff)
      then show ?thesis by simp
    next
      case (Cons x a')
      then have "s = a' @ sub @ b" using ab by simp
      then have "strIncludes s sub" using Cons.IH by blast
      then show ?thesis by simp
    qed
  qed
qed

lemma dropWhile_all_iff: "(\<forall>x\<in>set (dropWhile P xs). P x) \<longleftrightarrow> (\<forall>x\<in>set xs. P x)"
proof
  assume a: "\<forall>x\<in>set (dropWhile P xs). P x"
  have "dropWhile P xs = []"
  proof (rule ccontr)
    assume n: "dropWhile P xs \<noteq> []"
    then have "\<not> P (hd (dropWhile P xs))" by (rule hd_dropWhile)
    moreover have "hd (dropWhile P xs) \<in> set (dropWhile P xs)" using n by simp
    ultimately show False using a by blast
  qed
  then show "\<forall>x\<in>set xs. P x" by simp
next
  assume "\<forall>x\<in>set xs. P x"
  then show "\<forall>x\<in>set (dropWhile P xs). P x" by (meson set_dropWhileD)
qed

lemma strTrim_empty_iff: "strTrim s = [] \<longleftrightarrow> list_all isWhiteSpace s"
  by (simp add: strTrim_def list_all_iff dropWhile_all_iff)

subsection \<open>The race of the two timers\<close>

text \<open>The delay of the execution promise is at most 800 milliseconds, whatever
  \<^verbatim>\<open>Math.random()\<close> returns, so its timer is always due before the timeout's.\<close>

lemma execDelay_before_timeout: "execDelay env < real_of_int EXECUTION_TIMEOUT"
  by (simp add: execDelay_def EXECUTION_TIMEOUT_def min_def)

subsection \<open>Blank snippets\<close>

text \<open>
  \<^bold>\<open>C7.\<close> For every snippet that is empty or consists of white space only, in every
  language and every environment, \<^verbatim>\<open>executeCode\<close> returns at once the error result
  \<^verbatim>\<open>No code provided for execution.\<close> with the fixed \<^verbatim>\<open>executionTime\<close> of 10 milliseconds:
  neither the clock nor the validator, the detectors or the synthesiser contribute to it.
\<close>

theorem executeCode_blank:
  "list_all isWhiteSpace code \<Longrightarrow>
   executeCode env code language =
     Some \<lparr>status = Error, output = ''No code provided for execution.'',
           executionTime = Some 10\<rparr>"
  by (simp add: executeCode_def strTrim_empty_iff)

theorem executeCode_blank_witness:
  "list_all isWhiteSpace '' \<newline> '' \<and>
   executeCode \<lparr>random = 0, startTime = 0, endTime = 0\<rparr> '' \<newline> '' Java =
     Some \<lparr>status = Error, output = ''No code provided for execution.'',
           executionTime = Some 10\<rparr>"
  using executeCode_blank [of "'' \<newline> ''" "\<lparr>random = 0, startTime = 0, endTime = 0\<rparr>" Java]
  by (simp add: isWhiteSpace_def)

subsection \<open>Insights and the complexity profile\<close>

text \<open>
  \<^bold>\<open>C10.\<close> The list returned by \<^verbatim>\<open>getAIInsights\<close> does not depend on its argument
  \<^verbatim>\<open>complexityData\<close>: for every snippet, every language and any two profiles the two
  lists are equal. This holds for the latest iteration and for the one of
  \<^verbatim>\<open>src/services/codeService.ts\<close>.
\<close>

theorem getAIInsights_ignores_profile:
  "getAIInsights code language p1 = getAIInsights code language p2 \<and>
   getAIInsights_second code language p1 = getAIInsights_second code language p2"
  unfolding getAIInsights_def getAIInsights_second_def by (rule conjI; rule refl)

theorem getAIInsights_ignores_profile_witness:
  "getAIInsights ''for (;;) { }'' Cpp (analyzeComplexity ''for (;;) { }'' Cpp) =
   getAIInsights ''for (;;) { }'' Cpp (analyzeComplexity [] Cpp) \<and>
   getAIInsights_second ''for (;;) { }'' Cpp (analyzeComplexity ''for (;;) { }'' Cpp) =
   getAIInsights_second ''for (;;) { }'' Cpp (analyzeComplexity [] Cpp)"
  by (rule getAIInsights_ignores_profile)

subsection \<open>The time classes of a profile\<close>

lemma ordered_constant:
  "complexityRank l = Some r \<Longrightarrow> ordered \<lparr>best = l, average = l, worst = l\<rparr>"
  by (simp add: ordered_def classLe_def)

lemma complexityRank_labels:
  "complexityRank ''O(1)'' = Some 0" "complexityRank ''O(log n)'' = Some 1"
  "complexityRank ''O(n)'' = Some 2" "complexityRank ''O(n log n)'' = Some 3"
  "complexityRank (''O(n'' @ [CHR 0xB2] @ '')'') = Some 4" "complexityRank ''O(2^n)'' = Some 5"
  by (simp_all add: complexityRank_def)

lemma ordered_profiles:
  "ordered \<lparr>best = ''O(1)'', average = ''O(1)'', worst = ''O(1)''\<rparr>"
  "ordered \<lparr>best = ''O(n)'', average = ''O(n)'', worst = ''O(n)''\<rparr>"
  "ordered \<lparr>best = ''O(n log n)'', average = ''O(n log n)'', worst = ''O(n log n)''\<rparr>"
  "ordered \<lparr>best = ''O(n'' @ [CHR 0xB2] @ '')'', average = ''O(n'' @ [CHR 0xB2] @ '')'',
            worst = ''O(n'' @ [CHR 0xB2] @ '')''\<rparr>"
  "ordered \<lparr>best = ''O(2^n)'', average = ''O(2^n)'', worst = ''O(2^n)''\<rparr>"
  "ordered \<lparr>best = ''O(1)'', average = ''O(log n)'', worst = ''O(log n)''\<rparr>"
  "ordered \<lparr>best = ''O(1)'', average = ''O(n)'', worst = ''O(n)''\<rparr>"
  by (simp_all add: ordered_def classLe_def complexityRank_labels del: append.simps)

lemma timeComplexity_analyzeComplexity:
  "timeComplexity (analyzeComplexity code language) =
     (if hasFibonacci code language
      then \<lparr>best = ''O(2^n)'', average = ''O(2^n)'', worst = ''O(2^n)''\<rparr>
      else if hasDynamicProgramming code
      then \<lparr>best = ''O(n)'', average = ''O(n)'', worst = ''O(n)''\<rparr>
      else if hasBinarySearch code
      then \<lparr>best = ''O(1)'', average = ''O(log n)'', worst = ''O(log n)''\<rparr>
      else if hasDivideAndConquer code \<or> hasGreedy code
      then \<lparr>best = ''O(n log n)'', average = ''O(n log n)'', worst = ''O(n log n)''\<rparr>
      else if isNestedLoops code
      then \<lparr>best = ''O(n'' @ [CHR 0xB2] @ '')'', average = ''O(n'' @ [CHR 0xB2] @ '')'',
            worst = ''O(n'' @ [CHR 0xB2] @ '')''\<rparr>
      else if hasLoop code
      then \<lparr>best = ''O(n)'', average = ''O(n)'', worst = ''O(n)''\<rparr>
      else \<lparr>best = ''O(1)'', average = ''O(1)'', worst = ''O(1)''\<rparr>)"
  by (simp add: analyzeComplexity_def)

lemma timeComplexity_analyzeComplexity_first:
  "timeComplexity (analyzeComplexity_first code language) =
     (if strIncludes code ''fibonacci'' \<and> strIncludes code ''return'' \<and>
         strIncludes code ''n-1'' \<and> strIncludes code ''n-2''
      then \<lparr>best = ''O(2^n)'', average = ''O(2^n)'', worst = ''O(2^n)''\<rparr>
      else \<lparr>best = ''O(1)'', average = ''O(n)'', worst = ''O(n)''\<rparr>)"
  by (simp add: analyzeComplexity_first_def)

lemma timeComplexity_analyzeComplexity_second:
  "timeComplexity (analyzeComplexity_second code language) =
     (if hasFibonacci_second code
      then \<lparr>best = ''O(2^n)'', average = ''O(2^n)'', worst = ''O(2^n)''\<rparr>
      else if hasNestedLoop_second code
      then \<lparr>best = ''O(n'' @ [CHR 0xB2] @ '')'', average = ''O(n'' @ [CHR 0xB2] @ '')'',
            worst = ''O(n'' @ [CHR 0xB2] @ '')''\<rparr>
      else if hasLoop_second code
      then \<lparr>best = ''O(n)'', average = ''O(n)'', worst = ''O(n)''\<rparr>
      else \<lparr>best = ''O(1)'', average = ''O(1)'', worst = ''O(1)''\<rparr>)"
  by (simp add: analyzeComplexity_second_def)

text \<open>
  \<^bold>\<open>C6.\<close> For every snippet and every language the profile returned by
  \<^verbatim>\<open>analyzeComplexity\<close> has \<open>best \<le> average \<le> worst\<close> in the ordering of the labels
  \<^verbatim>\<open>O(1) < O(log n) < O(n) < O(n log n) < O(n\<twosuperior>) < O(2^n)\<close>; this holds for the latest
  iteration, for the first one and for the one of \<^verbatim>\<open>src/services/codeService.ts\<close>.
\<close>

theorem analyzeComplexity_ordered:
  "ordered (timeComplexity (analyzeComplexity code language)) \<and>
   ordered (timeComplexity (analyzeComplexity_first code language)) \<and>
   ordered (timeComplexity (analyzeComplexity_second code language))"
  by (simp add: timeComplexity_analyzeComplexity timeComplexity_analyzeComplexity_first
      timeComplexity_analyzeComplexity_second ordered_profiles del: append.simps)

theorem analyzeComplexity_ordered_witness:
  "ordered (timeComplexity (analyzeComplexity ''for (;;) { }'' Java)) \<and>
   ordered (timeComplexity (analyzeComplexity_first ''for (;;) { }'' Java)) \<and>
   ordered (timeComplexity (analyzeComplexity_second ''for (;;) { }'' Java))"
  by (rule analyzeComplexity_ordered)

subsection \<open>Determinism\<close>



subsection \<open>Matching\<close>

text \<open>The equations of the matcher and of the searches recur without a guard that the
  simplifier could see, so they are unfolded by hand.\<close>

declare regexMatchAll.simps [simp del] search.simps [simp del]

lemmas run_Star = run.simps(4)
lemmas run_StarLazy = run.simps(5)

declare run.simps(4) [simp del] run.simps(5) [simp del]

lemma run_suffix: "st' \<in> set (run ic r st) \<Longrightarrow> \<exists>p. fst st = p @ fst st'"
proof (induction ic r st arbitrary: st' rule: run.induct)
  case (1 ic st)
  then show ?case by simp
next
  case (2 ic a s cs)
  then show ?case by (cases s) (auto split: if_splits)
next
  case (3 ic r1 r2 st)
  from "3.prems" obtain mid where m: "mid \<in> set (run ic r1 st)" "st' \<in> set (run ic r2 mid)"
    by auto
  from "3.IH"(1) [OF m(1)] obtain p where p: "fst st = p @ fst mid" by blast
  from "3.IH"(2) [OF m(1) m(2)] obtain q where q: "fst mid = q @ fst st'" by blast
  from p q have "fst st = (p @ q) @ fst st'" by simp
  then show ?case by blast
next
  case (4 ic r s cs)
  show ?case
  proof (cases "st' = (s, cs)")
    case True
    then show ?thesis by simp
  next
    case False
    with "4.prems" obtain mid where m: "mid \<in> set (run ic r (s, cs))"
      "length (fst mid) < length s" "st' \<in> set (run ic (Star r) mid)"
      by (subst (asm) run_Star) (auto split: if_splits)
    from "4.IH"(1) [OF m(1)] obtain p where p: "s = p @ fst mid" by auto
    from "4.IH"(2) [of mid "fst mid" "snd mid" st'] m
    obtain q where q: "fst mid = q @ fst st'" by auto
    from p q have "fst (s, cs) = (p @ q) @ fst st'" by simp
    then show ?thesis by blast
  qed
next
  case (5 ic r s cs)
  show ?case
  proof (cases "st' = (s, cs)")
    case True
    then show ?thesis by simp
  next
    case False
    with "5.prems" obtain mid where m: "mid \<in> set (run ic r (s, cs))"
      "length (fst mid) < length s" "st' \<in> set (run ic (StarLazy r) mid)"
      by (subst (asm) run_StarLazy) (auto split: if_splits)
    from "5.IH"(1) [OF m(1)] obtain p where p: "s = p @ fst mid" by auto
    from "5.IH"(2) [of mid "fst mid" "snd mid" st'] m
    obtain q where q: "fst mid = q @ fst st'" by auto
    from p q have "fst (s, cs) = (p @ q) @ fst st'" by simp
    then show ?thesis by blast
  qed
next
  case (6 ic r s cs)
  then show ?case by auto
next
  case (7 ic n r s cs)
  then show ?case by auto
qed

lemma run_lit:
  "st' \<in> set (run False (lit w) (s, cs)) \<Longrightarrow> s = w @ fst st' \<and> snd st' = cs"
proof (induction w arbitrary: s)
  case Nil
  then show ?case by simp
next
  case (Cons c w)
  show ?case
  proof (cases s)
    case Nil
    with Cons.prems show ?thesis by simp
  next
    case (Cons x t)
    with Cons.prems have "x = c" and "st' \<in> set (run False (lit w) (t, cs))"
      by (auto split: if_splits)
    with Cons.IH [of t] Cons show ?thesis by simp
  qed
qed

lemma regexMatchAll_skip:
  assumes "run (ignoreCase re) (pattern re) (x # t, Map.empty) = []"
  shows "regexMatchAll re (x # t) = regexMatchAll re t"
proof -
  have s: "search re (x # t) = map_option (\<lambda>(k, st). (Suc k, st)) (search re t)"
    using assms by (subst search.simps) simp
  show ?thesis
  proof (cases "search re t")
    case None
    then show ?thesis using s by (simp add: regexMatchAll.simps [of re "x # t"] regexMatchAll.simps [of re t])
  next
    case (Some a)
    obtain k rest cs where a: "a = (k, (rest, cs))" by (metis prod.exhaust)
    show ?thesis using s Some a
      by (simp add: regexMatchAll.simps [of re "x # t"] regexMatchAll.simps [of re t])
  qed
qed

lemma regexMatchAll_head:
  assumes "run (ignoreCase re) (pattern re) (s, Map.empty) = (rest, cs) # others"
    and "length rest < length s"
  shows "regexMatchAll re s =
           \<lparr>matched = take (length s - length rest) s, groups = cs\<rparr> # regexMatchAll re rest"
proof -
  have "search re s = Some (0, (rest, cs))"
    using assms(1) by (subst search.simps) simp
  then show ?thesis using assms(2) by (simp add: regexMatchAll.simps [of re s])
qed

lemma count_char_matches:
  "length (regexMatchAll \<lparr>pattern = ch c, ignoreCase = False\<rparr> s) = count_list s c"
proof (induction s)
  case Nil
  have "search \<lparr>pattern = ch c, ignoreCase = False\<rparr> [] = None"
    by (subst search.simps) (simp add: ch_def)
  then show ?case by (simp add: regexMatchAll.simps [of _ "[]"])
next
  case (Cons x t)
  show ?case
  proof (cases "x = c")
    case True
    have "run (ignoreCase \<lparr>pattern = ch c, ignoreCase = False\<rparr>)
            (pattern \<lparr>pattern = ch c, ignoreCase = False\<rparr>) (x # t, Map.empty) = (t, Map.empty) # []"
      using True by (simp add: ch_def)
    from regexMatchAll_head [OF this] Cons True show ?thesis by simp
  next
    case False
    have "run (ignoreCase \<lparr>pattern = ch c, ignoreCase = False\<rparr>)
            (pattern \<lparr>pattern = ch c, ignoreCase = False\<rparr>) (x # t, Map.empty) = []"
      using False by (simp add: ch_def)
    from regexMatchAll_skip [OF this] Cons False show ?thesis by simp
  qed
qed

lemma braceMismatch_iff:
  "braceMismatch code \<longleftrightarrow> count_list code CHR ''{'' \<noteq> count_list code CHR ''}''"
  by (simp add: braceMismatch_def openBraceRegex_def closeBraceRegex_def count_char_matches)

text \<open>A pattern that starts with a word matches only where that word stands, and the
  search for the next match resumes behind the word.\<close>

lemma regexMatchAll_word:
  assumes "ignoreCase re = False" and "pattern re = Seq (lit w) r" and "w \<noteq> []"
    and "regexMatchAll re s \<noteq> []"
  shows "\<exists>a b p b'. s = a @ w @ b \<and> b = p @ b' \<and>
           length (regexMatchAll re s) = Suc (length (regexMatchAll re b'))"
  using assms(4)
proof (induction s)
  case Nil
  have "run False (lit w) ([], Map.empty) = []"
  proof (rule ccontr)
    assume "run False (lit w) ([], Map.empty) \<noteq> []"
    then obtain st' where "st' \<in> set (run False (lit w) ([], Map.empty))"
      by (cases "run False (lit w) ([], Map.empty)") auto
    from run_lit [OF this] assms(3) show False by simp
  qed
  then have "search re [] = None"
    using assms(1,2) by (subst search.simps) simp
  then have "regexMatchAll re [] = []" by (simp add: regexMatchAll.simps [of re "[]"])
  with Nil show ?case by simp
next
  case (Cons x t)
  show ?case
  proof (cases "run (ignoreCase re) (pattern re) (x # t, Map.empty)")
    case Nil
    from regexMatchAll_skip [OF Nil] have e: "regexMatchAll re (x # t) = regexMatchAll re t" .
    with Cons.prems have "regexMatchAll re t \<noteq> []" by simp
    from Cons.IH [OF this] obtain a b p b' where
      h: "t = a @ w @ b" "b = p @ b'"
         "length (regexMatchAll re t) = Suc (length (regexMatchAll re b'))" by blast
    from h(1) have "x # t = (x # a) @ w @ b" by simp
    with h(2,3) e show ?thesis by metis
  next
    case (Cons st others)
    obtain rest cs where st: "st = (rest, cs)" by (cases st)
    have "st \<in> set (run False (Seq (lit w) r) (x # t, Map.empty))"
      using Cons assms(1,2) by simp
    then obtain mid where m: "mid \<in> set (run False (lit w) (x # t, Map.empty))"
      "st \<in> set (run False r mid)" by auto
    from run_lit [OF m(1)] have w: "x # t = w @ fst mid" by simp
    from run_suffix [OF m(2)] st obtain p where p: "fst mid = p @ rest" by auto
    have "length (x # t) = length w + length p + length rest"
      using arg_cong [OF w, of length] p by simp
    moreover have "0 < length w" using assms(3) by simp
    ultimately have "length rest < length (x # t)" by linarith
    from regexMatchAll_head [OF Cons [unfolded st] this]
    have "length (regexMatchAll re (x # t)) = Suc (length (regexMatchAll re rest))" by simp
    moreover have "x # t = [] @ w @ fst mid" using w by simp
    ultimately show ?thesis using p by blast
  qed
qed

lemma regexMatchAll_word_twice:
  assumes "ignoreCase re = False" and "pattern re = Seq (lit w) r" and "w \<noteq> []"
    and "2 \<le> length (regexMatchAll re s)"
  shows "\<exists>a mid b. s = a @ w @ mid @ w @ b"
proof -
  from assms(4) have "regexMatchAll re s \<noteq> []" by auto
  from regexMatchAll_word [OF assms(1-3) this] obtain a b p b' where
    h: "s = a @ w @ b" "b = p @ b'"
       "length (regexMatchAll re s) = Suc (length (regexMatchAll re b'))" by blast
  from h(3) assms(4) have "regexMatchAll re b' \<noteq> []" by auto
  from regexMatchAll_word [OF assms(1-3) this] obtain a2 b2 where "b' = a2 @ w @ b2" by blast
  with h(1,2) have "s = a @ w @ (p @ a2) @ w @ b2" by simp
  then show ?thesis by blast
qed

lemma regexMatchAll_word_once:
  assumes "ignoreCase re = False" and "pattern re = Seq (lit w) r" and "w \<noteq> []"
    and "1 \<le> length (regexMatchAll re s)"
  shows "strIncludes s w"
proof -
  from assms(4) have "regexMatchAll re s \<noteq> []" by auto
  from regexMatchAll_word [OF assms(1-3) this] show ?thesis
    unfolding strIncludes_iff by blast
qed

lemma strIndexOf_bounds:
  "0 \<le> strIndexOf (a @ sub @ b) sub \<and> strIndexOf (a @ sub @ b) sub \<le> int (length a)"
proof (induction a)
  case Nil
  have "strStartsWith (sub @ b) sub" by (auto simp: strStartsWith_iff)
  then show ?case by (cases "sub @ b") auto
next
  case (Cons x a)
  then show ?case by (auto simp: Let_def)
qed

lemma strIncludesFrom_second:
  "strIncludesFrom (a @ w @ mid @ w @ b) w (strIndexOf (a @ w @ mid @ w @ b) w + int (length w))"
proof -
  let ?s = "a @ w @ mid @ w @ b"
  let ?n = "nat (strIndexOf ?s w + int (length w))"
  from strIndexOf_bounds [of a w "mid @ w @ b"]
  have "?n \<le> length (a @ w)" by auto
  then have "drop ?n ?s = (drop ?n (a @ w) @ mid) @ w @ b"
    using drop_append [of ?n "a @ w" "mid @ w @ b"] by simp
  then have "strIncludes (drop ?n ?s) w" unfolding strIncludes_iff by blast
  then show ?thesis by (simp add: strIncludesFrom_def)
qed

text \<open>Two loop openers, of either kind, are enough for \<^verbatim>\<open>isNestedLoops\<close>.\<close>

lemma loop_openers_nested:
  assumes "2 \<le> length (regexMatchAll forOpenRegex code) + length (regexMatchAll whileOpenRegex code)"
  shows "isNestedLoops code"
proof -
  have f: "ignoreCase forOpenRegex = False"
    "pattern forOpenRegex = Seq (lit ''for'') (seqs [ws, ch CHR ''(''])"
    by (simp_all add: forOpenRegex_def)
  have w: "ignoreCase whileOpenRegex = False"
    "pattern whileOpenRegex = Seq (lit ''while'') (seqs [ws, ch CHR ''(''])"
    by (simp_all add: whileOpenRegex_def)
  consider "2 \<le> length (regexMatchAll forOpenRegex code)"
    | "2 \<le> length (regexMatchAll whileOpenRegex code)"
    | "1 \<le> length (regexMatchAll forOpenRegex code)" "1 \<le> length (regexMatchAll whileOpenRegex code)"
    using assms by linarith
  then show ?thesis
  proof cases
    case 1
    from regexMatchAll_word_twice [OF f _ 1] obtain a mid b where
      c: "code = a @ ''for'' @ mid @ ''for'' @ b" by blast
    have "strIncludes code ''for''" unfolding strIncludes_iff using c by blast
    moreover have "strIncludesFrom code ''for'' (strIndexOf code ''for'' + 3)"
      using strIncludesFrom_second [of a "''for''" mid b] c by simp
    ultimately show ?thesis using assms by (simp add: isNestedLoops_def)
  next
    case 2
    from regexMatchAll_word_twice [OF w _ 2] obtain a mid b where
      c: "code = a @ ''while'' @ mid @ ''while'' @ b" by blast
    have "strIncludes code ''while''" unfolding strIncludes_iff using c by blast
    moreover have "strIncludesFrom code ''while'' (strIndexOf code ''while'' + 5)"
      using strIncludesFrom_second [of a "''while''" mid b] c by simp
    ultimately show ?thesis by (simp add: isNestedLoops_def)
  next
    case 3
    from regexMatchAll_word_once [OF f _ 3(1)] regexMatchAll_word_once [OF w _ 3(2)]
    show ?thesis by (simp add: isNestedLoops_def)
  qed
qed

subsection \<open>Doubles and the Fibonacci loop\<close>

lemma bitLength_le: "x < 2 ^ n \<Longrightarrow> bitLength x \<le> n"
proof (induction n arbitrary: x)
  case 0
  then have "x = 0" by simp
  then show ?case by (simp add: bitLength.simps [of 0])
next
  case (Suc n)
  then have "x div 2 < 2 ^ n" by auto
  from Suc.IH [OF this] show ?case by (simp add: bitLength.simps [of x])
qed

lemma bitLength_gt: "2 ^ n \<le> x \<Longrightarrow> n < bitLength x"
proof (induction n arbitrary: x)
  case 0
  then show ?case by (simp add: bitLength.simps [of x])
next
  case (Suc n)
  then have "2 ^ n \<le> x div 2" by auto
  moreover have "(0::nat) < 2 ^ Suc n" by simp
  with Suc.prems have "0 < x" by linarith
  ultimately show ?case using Suc.IH [of "x div 2"] by (simp add: bitLength.simps [of x])
qed

lemma roundNat_exact: "x < 9007199254740992 \<Longrightarrow> roundNat x = x"
proof -
  assume "x < 9007199254740992"
  then have "x < 2 ^ 53" by simp
  then have "bitLength x \<le> 53" by (rule bitLength_le)
  then show ?thesis by (simp add: roundNat_def)
qed

lemma toNumber_exact: "\<bar>k\<bar> < 9007199254740992 \<Longrightarrow> toNumber k = Num k"
proof -
  assume a: "\<bar>k\<bar> < 9007199254740992"
  then have n: "nat \<bar>k\<bar> < 9007199254740992" by simp
  then have "nat \<bar>k\<bar> < 2 ^ 53" by simp
  then have "bitLength (nat \<bar>k\<bar>) \<le> 53" by (rule bitLength_le)
  then show ?thesis using roundNat_exact [OF n] by (simp add: toNumber_def Let_def)
qed

text \<open>Between \<open>2 ^ 53\<close> and \<open>2 ^ 54\<close> the doubles are the even numbers.\<close>

lemma roundNat_54:
  assumes "9007199254740992 \<le> x" and "x < 18014398509481984"
  shows "roundNat x = (if even x then x else if even (x div 2) then x - 1 else x + 1)"
proof -
  have "2 ^ 53 \<le> x" using assms(1) by simp
  then have "53 < bitLength x" by (rule bitLength_gt)
  moreover have "x < 2 ^ 54" using assms(2) by simp
  then have "bitLength x \<le> 54" by (rule bitLength_le)
  ultimately have b: "bitLength x = 54" by simp
  have odd: "odd x \<Longrightarrow> x mod 2 = 1" by presburger
  have o2: "odd x \<Longrightarrow> x div 2 * 2 = x - 1" by presburger
  have o3: "odd x \<Longrightarrow> (x div 2 + 1) * 2 = x + 1" by presburger
  show ?thesis by (auto simp: roundNat_def b Let_def odd o2 o3)
qed

lemma toNumber_54:
  assumes "9007199254740992 \<le> k" and "k < 18014398509481984"
  shows "toNumber k = Num (if even k then k else if even (k div 2) then k - 1 else k + 1)"
proof -
  obtain m where m: "k = int m" using assms(1) by (metis nat_0_le order_trans zero_le_numeral)
  have n: "9007199254740992 \<le> m" "m < 18014398509481984" using assms m by simp_all
  have r: "roundNat m = (if even m then m else if even (m div 2) then m - 1 else m + 1)"
    by (rule roundNat_54 [OF n])
  have "roundNat m \<le> m + 1" unfolding r by (simp add: le_SucI)
  then have "roundNat m < 2 ^ 55" using n by simp
  then have "bitLength (roundNat m) \<le> 55" by (rule bitLength_le)
  then have nb: "\<not> 1024 < bitLength (roundNat m)" by simp
  have d: "int m div 2 = int (m div 2)" by simp
  have "toNumber (int m) = Num (int (roundNat m))"
    using nb by (simp add: toNumber_def Let_def)
  also have "int (roundNat m) =
      (if even (int m) then int m else if even (int m div 2) then int m - 1 else int m + 1)"
    unfolding r d using n by simp
  finally show ?thesis unfolding m .
qed











text \<open>From \<open>2 ^ 53\<close> on the counter does not move: \<open>2 ^ 53 + 1\<close> rounds to \<open>2 ^ 53\<close>.\<close>

lemma numLe_trans_Num: "k \<le> m \<Longrightarrow> numLe (Num m) n \<Longrightarrow> numLe (Num k) n"
  by (cases n) auto

lemma fibLoop_stalls:
  assumes "fibLoop i n a b = Some y"
  shows "\<not> (\<exists>k. i = Num k \<and> 0 \<le> k \<and> k \<le> 9007199254740992 \<and> numLe (Num 9007199254740992) n)"
proof (rule fibLoop.raw_induct
    [where P = "\<lambda>i n a b y. \<not> (\<exists>k. i = Num k \<and> 0 \<le> k \<and> k \<le> 9007199254740992 \<and>
                                  numLe (Num 9007199254740992) n)", OF _ assms])
  fix loop i n a b y
  assume IH: "\<And>i n a b y. loop i n a b = Some y \<Longrightarrow>
                \<not> (\<exists>k. i = Num k \<and> 0 \<le> k \<and> k \<le> 9007199254740992 \<and>
                        numLe (Num 9007199254740992) n)"
    and body: "(if numLe i n then loop (numAdd i (Num 1)) n b (numAdd a b) else Some b) = Some y"
  show "\<not> (\<exists>k. i = Num k \<and> 0 \<le> k \<and> k \<le> 9007199254740992 \<and> numLe (Num 9007199254740992) n)"
  proof
    assume "\<exists>k. i = Num k \<and> 0 \<le> k \<and> k \<le> 9007199254740992 \<and> numLe (Num 9007199254740992) n"
    then obtain k where k: "i = Num k" "0 \<le> k" "k \<le> 9007199254740992"
      and n: "numLe (Num 9007199254740992) n" by blast
    have "numLe i n" unfolding k(1) using k(3) n by (rule numLe_trans_Num)
    with body have l: "loop (numAdd i (Num 1)) n b (numAdd a b) = Some y" by simp
    have "\<exists>k'. numAdd i (Num 1) = Num k' \<and> 0 \<le> k' \<and> k' \<le> 9007199254740992"
    proof (cases "k + 1 < 9007199254740992")
      case True
      then have "numAdd i (Num 1) = Num (k + 1)" using k by (simp add: toNumber_exact)
      then show ?thesis using True k by simp
    next
      case False
      then have "k + 1 = 9007199254740992 \<or> k + 1 = 9007199254740993" using k(3) by linarith
      then have "numAdd i (Num 1) = Num 9007199254740992"
        unfolding k(1) by (auto simp: toNumber_54)
      then show ?thesis by simp
    qed
    with IH [OF l] n show False by blast
  qed
qed

lemma calculateFibonacci_diverges:
  assumes "numLe (Num 9007199254740992) n"
  shows "calculateFibonacci n = None"
proof -
  have "fibLoop (Num 2) n (Num 0) (Num 1) = None"
  proof (cases "fibLoop (Num 2) n (Num 0) (Num 1)")
    case None
    then show ?thesis .
  next
    case (Some y)
    from fibLoop_stalls [OF this] assms show ?thesis by simp
  qed
  moreover have "\<not> numLe n (Num 0)" "n \<noteq> Num 1" using assms by (cases n; simp)+
  ultimately show ?thesis by (simp add: calculateFibonacci_def)
qed

subsection \<open>Precedence of the Fibonacci rule\<close>

text \<open>
  \<^bold>\<open>C5.\<close> For every snippet that has the Fibonacci shape and the nested-loop shape,
  \<^verbatim>\<open>analyzeComplexity\<close> answers by its first rule: time \<^verbatim>\<open>O(2^n)\<close> in the best, the average
  and the worst case and space \<^verbatim>\<open>O(n)\<close>, not the classes of the nested-loop rule.
\<close>

theorem analyzeComplexity_fibonacci_first:
  "hasFibonacci code language \<Longrightarrow> isNestedLoops code \<Longrightarrow>
   timeComplexity (analyzeComplexity code language) =
     \<lparr>best = ''O(2^n)'', average = ''O(2^n)'', worst = ''O(2^n)''\<rparr> \<and>
   spaceComplexity (analyzeComplexity code language) = ''O(n)''"
  by (simp add: analyzeComplexity_def)

text \<open>A memoised Fibonacci with a \<^verbatim>\<open>for\<close> and a \<^verbatim>\<open>while\<close> loop has both shapes.\<close>

theorem analyzeComplexity_fibonacci_first_witness:
  "hasFibonacci
     ''def fib(n, memo):\<newline>  for i in range(n):\<newline>    while i in memo:\<newline>      return memo[i]\<newline>  return fib(n-1, memo) + fib(n-2, memo)''
     Python \<and>
   isNestedLoops
     ''def fib(n, memo):\<newline>  for i in range(n):\<newline>    while i in memo:\<newline>      return memo[i]\<newline>  return fib(n-1, memo) + fib(n-2, memo)'' \<and>
   timeComplexity (analyzeComplexity
     ''def fib(n, memo):\<newline>  for i in range(n):\<newline>    while i in memo:\<newline>      return memo[i]\<newline>  return fib(n-1, memo) + fib(n-2, memo)''
     Python) =
     \<lparr>best = ''O(2^n)'', average = ''O(2^n)'', worst = ''O(2^n)''\<rparr> \<and>
   spaceComplexity (analyzeComplexity
     ''def fib(n, memo):\<newline>  for i in range(n):\<newline>    while i in memo:\<newline>      return memo[i]\<newline>  return fib(n-1, memo) + fib(n-2, memo)''
     Python) = ''O(n)''"
proof -
  let ?code = "''def fib(n, memo):\<newline>  for i in range(n):\<newline>    while i in memo:\<newline>      return memo[i]\<newline>  return fib(n-1, memo) + fib(n-2, memo)''"
  have h1: "hasFibonacci ?code Python" by code_simp
  have h2: "isNestedLoops ?code" by code_simp
  from analyzeComplexity_fibonacci_first [OF h1 h2] h1 h2 show ?thesis by blast
qed

subsection \<open>Nested loops\<close>

text \<open>
  \<^bold>\<open>C4\<close> as the specification states it fails: a snippet with two nested \<^verbatim>\<open>for\<close> loops
  and no recursion or memoisation vocabulary, whose inner body calls \<^verbatim>\<open>merge\<close>, is
  classified by the divide-and-conquer rule, which stands before the nested-loop rule.
\<close>

theorem analyzeComplexity_nested_loops_counterexample:
  "2 \<le> length (regexMatchAll forOpenRegex
          ''for (i = 0; i < n; i++) { for (j = 0; j < n; j++) { merge(a, i, j); } }'') \<and>
   \<not> hasRecursion ''for (i = 0; i < n; i++) { for (j = 0; j < n; j++) { merge(a, i, j); } }'' \<and>
   \<not> hasDynamicProgramming
       ''for (i = 0; i < n; i++) { for (j = 0; j < n; j++) { merge(a, i, j); } }'' \<and>
   \<not> hasFibonacci
       ''for (i = 0; i < n; i++) { for (j = 0; j < n; j++) { merge(a, i, j); } }'' Java \<and>
   timeComplexity (analyzeComplexity
       ''for (i = 0; i < n; i++) { for (j = 0; j < n; j++) { merge(a, i, j); } }'' Java) =
     \<lparr>best = ''O(n log n)'', average = ''O(n log n)'', worst = ''O(n log n)''\<rparr> \<and>
   spaceComplexity (analyzeComplexity
       ''for (i = 0; i < n; i++) { for (j = 0; j < n; j++) { merge(a, i, j); } }'' Java) = ''O(n)''"
  by code_simp

text \<open>
  \<^bold>\<open>C4, amended.\<close> For every snippet with at least two loop openers (matches of
  \<^verbatim>\<open>/for\s*\(/g\<close> and \<^verbatim>\<open>/while\s*\(/g\<close> together) that matches none of the five earlier
  rules (the Fibonacci shape, memoisation or DP, binary search, divide and conquer,
  greedy), \<^verbatim>\<open>analyzeComplexity\<close> returns time \<^verbatim>\<open>O(n\<twosuperior>)\<close> in all three cases and space
  \<^verbatim>\<open>O(1)\<close>, whatever the loop bodies contain otherwise.
\<close>

theorem analyzeComplexity_nested_loops:
  "2 \<le> length (regexMatchAll forOpenRegex code) + length (regexMatchAll whileOpenRegex code) \<Longrightarrow>
   \<not> hasFibonacci code language \<Longrightarrow> \<not> hasDynamicProgramming code \<Longrightarrow>
   \<not> hasBinarySearch code \<Longrightarrow> \<not> hasDivideAndConquer code \<Longrightarrow> \<not> hasGreedy code \<Longrightarrow>
   timeComplexity (analyzeComplexity code language) =
     \<lparr>best = ''O(n'' @ [CHR 0xB2] @ '')'', average = ''O(n'' @ [CHR 0xB2] @ '')'',
      worst = ''O(n'' @ [CHR 0xB2] @ '')''\<rparr> \<and>
   spaceComplexity (analyzeComplexity code language) = ''O(1)''"
  using loop_openers_nested [of code] by (simp add: analyzeComplexity_def)

theorem analyzeComplexity_nested_loops_witness:
  "2 \<le> length (regexMatchAll forOpenRegex
          ''for (i = 0; i < n; i++) { while (j < n) { total += a[i][j++]; } }'') +
        length (regexMatchAll whileOpenRegex
          ''for (i = 0; i < n; i++) { while (j < n) { total += a[i][j++]; } }'') \<and>
   timeComplexity (analyzeComplexity
       ''for (i = 0; i < n; i++) { while (j < n) { total += a[i][j++]; } }'' Cpp) =
     \<lparr>best = ''O(n'' @ [CHR 0xB2] @ '')'', average = ''O(n'' @ [CHR 0xB2] @ '')'',
      worst = ''O(n'' @ [CHR 0xB2] @ '')''\<rparr> \<and>
   spaceComplexity (analyzeComplexity
       ''for (i = 0; i < n; i++) { while (j < n) { total += a[i][j++]; } }'' Cpp) = ''O(1)''"
proof -
  let ?code = "''for (i = 0; i < n; i++) { while (j < n) { total += a[i][j++]; } }''"
  have h1: "2 \<le> length (regexMatchAll forOpenRegex ?code) +
                 length (regexMatchAll whileOpenRegex ?code)" by code_simp
  have h2: "\<not> hasFibonacci ?code Cpp" by code_simp
  have h3: "\<not> hasDynamicProgramming ?code" by code_simp
  have h4: "\<not> hasBinarySearch ?code" by code_simp
  have h5: "\<not> hasDivideAndConquer ?code" by code_simp
  have h6: "\<not> hasGreedy ?code" by code_simp
  from analyzeComplexity_nested_loops [OF h1 h2 h3 h4 h5 h6] h1 show ?thesis by blast
qed

subsection \<open>Unbalanced braces\<close>

lemma braces_not_blank:
  assumes "count_list code CHR ''{'' \<noteq> count_list code CHR ''}''"
  shows "strTrim code \<noteq> []"
proof
  assume "strTrim code = []"
  then have w: "\<forall>c\<in>set code. isWhiteSpace c" by (simp add: strTrim_empty_iff list_all_iff)
  have "\<not> isWhiteSpace CHR ''{''" "\<not> isWhiteSpace CHR ''}''" by (simp_all add: isWhiteSpace_def)
  with w have "CHR ''{'' \<notin> set code" "CHR ''}'' \<notin> set code" by blast+
  then have "count_list code CHR ''{'' = 0" "count_list code CHR ''}'' = 0"
    by (simp_all add: count_list_0_iff)
  with assms show False by simp
qed

text \<open>
  \<^bold>\<open>C3\<close> as the specification states it fails: the check for an endless loop stands
  before the check of the braces, so a Java snippet with one \<^verbatim>\<open>{\<close>, no \<^verbatim>\<open>}\<close> and a
  \<^verbatim>\<open>while (true)\<close> without \<^verbatim>\<open>break\<close> gets the diagnostic of the loop.
\<close>

theorem executeCode_brace_mismatch_counterexample:
  "count_list ''while (true) { poll();'' CHR ''{'' \<noteq> count_list ''while (true) { poll();'' CHR ''}'' \<and>
   executeCode \<lparr>random = 0, startTime = 0, endTime = 500\<rparr> ''while (true) { poll();'' Java =
     Some \<lparr>status = Error,
           output = ''Potential infinite loop detected: while loop with no break condition'',
           executionTime = Some 500\<rparr>"
  by code_simp

text \<open>
  \<^bold>\<open>C3, amended.\<close> For every snippet whose count of \<^verbatim>\<open>{\<close> differs from its count of \<^verbatim>\<open>}\<close>,
  under \<^verbatim>\<open>java\<close>, \<^verbatim>\<open>cpp\<close> or \<^verbatim>\<open>c\<close>, \<^verbatim>\<open>executeCode\<close> returns a result with status
  \<^verbatim>\<open>error\<close>; its output is \<^verbatim>\<open>error: mismatched curly braces\<close>, unless the snippet has a
  \<^verbatim>\<open>while (true)\<close> opener and nowhere the word \<^verbatim>\<open>break\<close>, in which case it is the
  diagnostic of the endless loop.
\<close>

theorem executeCode_brace_mismatch:
  assumes "language = Java \<or> language = Cpp \<or> language = CLang"
    and "count_list code CHR ''{'' \<noteq> count_list code CHR ''}''"
  shows "executeCode env code language =
           Some \<lparr>status = Error,
                 output =
                   (if regexTest whileTrueParenRegex code \<and> \<not> strIncludes code ''break''
                    then ''Potential infinite loop detected: while loop with no break condition''
                    else ''error: mismatched curly braces''),
                 executionTime = Some (endTime env - startTime env)\<rparr>"
proof -
  have "detectSyntaxErrors code language =
          Some (if regexTest whileTrueParenRegex code \<and> \<not> strIncludes code ''break''
                then ''Potential infinite loop detected: while loop with no break condition''
                else ''error: mismatched curly braces'')"
    using assms by (auto simp: detectSyntaxErrors_def braceMismatch_iff)
  then show ?thesis
    using braces_not_blank [OF assms(2)]
    by (simp add: executeCode_def executionPromise_def execDelay_before_timeout)
qed

theorem executeCode_brace_mismatch_witness:
  "count_list ''int main() { return 0;'' CHR ''{'' \<noteq> count_list ''int main() { return 0;'' CHR ''}'' \<and>
   executeCode \<lparr>random = 0, startTime = 0, endTime = 500\<rparr> ''int main() { return 0;'' CLang =
     Some \<lparr>status = Error, output = ''error: mismatched curly braces'',
           executionTime = Some 500\<rparr>"
proof -
  have h: "count_list ''int main() { return 0;'' CHR ''{'' \<noteq>
           count_list ''int main() { return 0;'' CHR ''}''" by simp
  have l: "\<not> regexTest whileTrueParenRegex ''int main() { return 0;''" by code_simp
  from executeCode_brace_mismatch [OF _ h, of CLang "\<lparr>random = 0, startTime = 0, endTime = 500\<rparr>"] h l
  show ?thesis by simp
qed

subsection \<open>The Fibonacci helper\<close>















subsection \<open>The status and the output of a result\<close>

text \<open>The timeout promise never wins the race: a result of \<^verbatim>\<open>executeCode\<close> has the status
  \<^verbatim>\<open>success\<close> or \<^verbatim>\<open>error\<close>.\<close>

lemma executeCode_status:
  "executeCode env code language = Some r \<Longrightarrow> status r = Success \<or> status r = Error"
  by (auto simp: executeCode_def executionPromise_def execDelay_before_timeout
      split: if_splits option.splits)

text \<open>The texts of the synthesisers: the digits of a number, the diagnostics and the
  reports are not empty.\<close>

lemma digitsOf_nonempty: "digitsOf n \<noteq> []"
  by (subst digitsOf.simps) simp

lemma natToString_nonempty: "natToString x \<noteq> []"
  by (simp add: natToString_def Let_def digitsOf_nonempty split: prod.splits)

lemma numberToString_nonempty: "numberToString r \<noteq> []"
  by (cases r) (simp_all add: natToString_nonempty)

lemma detectSyntaxErrors_nonempty: "detectSyntaxErrors code language = Some e \<Longrightarrow> e \<noteq> []"
  by (auto simp: detectSyntaxErrors_def split: if_splits)

lemma simulateFibonacci_nonempty: "simulateFibonacci code language = Some out \<Longrightarrow> out \<noteq> []"
  by (auto simp: simulateFibonacci_def Let_def numberToString_nonempty
      simp del: numberToString.simps split: option.splits if_splits)

lemma simulateInputExecution_nonempty:
  "language \<noteq> JavaScript \<Longrightarrow> simulateInputExecution code language \<noteq> []"
  by (cases language) (simp_all add: simulateInputExecution_def simulatedInput_def)

lemma simulateBubbleSort_nonempty:
  "language \<noteq> JavaScript \<Longrightarrow> simulateBubbleSort language \<noteq> []"
  by (cases language) (simp_all add: simulateBubbleSort_def)

lemma synthesisers_nonempty:
  "simulateSelectionSort language \<noteq> []" "simulateArrayOutput language \<noteq> []"
  "simulateFactorial language \<noteq> []" "getDefaultOutput language \<noteq> []"
  by (simp_all add: simulateSelectionSort_def simulateArrayOutput_def simulateFactorial_def
      getDefaultOutput_def)

lemma simulateExecution_nonempty:
  assumes "language \<noteq> JavaScript \<or> \<not> isBubbleSort code language"
    and "simulateExecution code language = Some out"
  shows "out \<noteq> []"
proof (cases "hasInputStatements code language")
  case True
  then have "language \<noteq> JavaScript" by (auto simp: hasInputStatements_def)
  with True assms(2) show ?thesis
    by (auto simp: simulateExecution_def simulateInputExecution_nonempty)
next
  case False
  with assms(2) obtain p where p: "extractPrintStatements code language = Some p"
    by (auto simp: simulateExecution_def split: option.splits)
  show ?thesis
  proof (cases "p \<noteq> [] \<and> strTrim p \<noteq> []")
    case True
    with assms(2) False p show ?thesis by (auto simp: simulateExecution_def)
  next
    case np: False
    show ?thesis
    proof (cases "isFibonacci code language")
      case True
      with assms(2) False p np have "simulateFibonacci code language = Some out"
        by (auto simp: simulateExecution_def)
      then show ?thesis by (rule simulateFibonacci_nonempty)
    next
      case nf: False
      show ?thesis
      proof (cases "isBubbleSort code language")
        case True
        with assms(2) False p np nf have "out = simulateBubbleSort language"
          by (auto simp: simulateExecution_def)
        moreover from True assms(1) have "language \<noteq> JavaScript" by simp
        ultimately show ?thesis by (simp add: simulateBubbleSort_nonempty)
      next
        case nb: False
        from assms(2) False p np nf nb have
          "out \<in> {simulateSelectionSort language, ''Hello, World!'',
                   simulateArrayOutput language, simulateFactorial language,
                   ''Loop executed successfully.\<newline>Output: 0 1 2 3 4'',
                   ''Recursive function executed.\<newline>Result: 55'', getDefaultOutput language}"
          by (simp add: simulateExecution_def split: if_splits)
        with synthesisers_nonempty [of language] show ?thesis by auto
      qed
    qed
  qed
qed

text \<open>A bubble sort under \<^verbatim>\<open>javascript\<close> apart, every result has some output.\<close>

lemma executeCode_output_nonempty:
  assumes "language \<noteq> JavaScript \<or> \<not> isBubbleSort code language"
    and "executeCode env code language = Some r"
  shows "output r \<noteq> []"
proof (cases "strTrim code = []")
  case True
  with assms(2) show ?thesis by (auto simp: executeCode_def)
next
  case False
  with assms(2) have e: "executionPromise env code language = Some r"
    by (simp add: executeCode_def execDelay_before_timeout)
  show ?thesis
  proof (cases "detectSyntaxErrors code language")
    case None
    with e obtain out where "simulateExecution code language = Some out" "output r = out"
      by (auto simp: executionPromise_def split: option.splits)
    with simulateExecution_nonempty [OF assms(1)] show ?thesis by simp
  next
    case (Some err)
    with e have "output r = err" by (auto simp: executionPromise_def)
    with detectSyntaxErrors_nonempty [OF Some] show ?thesis by simp
  qed
qed

text \<open>
  \<^bold>\<open>C2.\<close> The specification wants a non-empty output whenever the status is \<^verbatim>\<open>success\<close>
  or \<^verbatim>\<open>error\<close>. \<^verbatim>\<open>simulateBubbleSort\<close> starts from \<^verbatim>\<open>let result = ''\<close> and assigns a text
  for \<^verbatim>\<open>java\<close>, \<^verbatim>\<open>python\<close>, \<^verbatim>\<open>cpp\<close> and \<^verbatim>\<open>c\<close> only, where \<^verbatim>\<open>simulateSelectionSort\<close> and
  the other synthesisers end with a text for any other language. Under \<^verbatim>\<open>javascript\<close>,
  the language the page starts with, a bubble sort is reported as a success with the
  empty output.
\<close>

theorem executeCode_bubble_sort_javascript:
  "executeCode env
     ''for (i = 0; i < n; i++) for (j = 0; j < n - 1; j++) if (a[j] > a[j+1]) swap(a, j, j+1);''
     JavaScript =
   Some \<lparr>status = Success, output = [], executionTime = Some (endTime env - startTime env)\<rparr>"
proof -
  let ?code = "''for (i = 0; i < n; i++) for (j = 0; j < n - 1; j++) if (a[j] > a[j+1]) swap(a, j, j+1);''"
  have t: "strTrim ?code \<noteq> []" by code_simp
  have d: "detectSyntaxErrors ?code JavaScript = None" by code_simp
  have s: "simulateExecution ?code JavaScript = Some []" by code_simp
  show ?thesis
    by (simp only: executeCode_def executionPromise_def execDelay_before_timeout t d s
        if_False if_True option.case)
qed

subsection \<open>Work that does not finish\<close>

text \<open>
  \<^bold>\<open>C8.\<close> The specification wants the status \<^verbatim>\<open>timeout\<close> when the work exceeds the
  budget. The work is synchronous, so the timer of the timeout cannot fire before the
  work returns; and for an argument of \<open>2 ^ 53\<close> or more the loop of
  \<^verbatim>\<open>calculateFibonacci\<close> does not return, its counter being stuck at \<open>2 ^ 53\<close>. For the
  Python snippet below, whose call is \<^verbatim>\<open>fib(10000000000000000)\<close>, \<^verbatim>\<open>executeCode\<close> returns
  nothing at all.
\<close>

theorem executeCode_hangs:
  "executeCode env
     ''def fib(n):\<newline>    a, b = 0, 1\<newline>    for _ in range(n):\<newline>        a, b = b, a+b\<newline>    return a\<newline>fib(10000000000000000)''
     Python = None"
proof -
  let ?code = "''def fib(n):\<newline>    a, b = 0, 1\<newline>    for _ in range(n):\<newline>        a, b = b, a+b\<newline>    return a\<newline>fib(10000000000000000)''"
  have t: "strTrim ?code \<noteq> []" by code_simp
  have d: "detectSyntaxErrors ?code Python = None" by code_simp
  have i: "hasInputStatements ?code Python = False" by code_simp
  have e: "extractPrintStatements ?code Python = Some []" by code_simp
  have f: "isFibonacci ?code Python = True" by code_simp
  have "map_option (\<lambda>m. (truthyGroup m 1, group m 1)) (regexMatch fibRegex ?code) =
          Some (True, ''10000000000000000'')" by code_simp
  then have "fibArgument ?code = parseInt ''10000000000000000''"
    by (auto simp: fibArgument_def)
  also have "\<dots> = Num 10000000000000000"
    by (simp add: parseInt_def decimalValue_def digitValue_def toNumber_54)
  finally have a: "fibArgument ?code = Num 10000000000000000" .
  have "calculateFibonacci (Num 10000000000000000) = None"
    by (rule calculateFibonacci_diverges) simp
  then have s: "simulateFibonacci ?code Python = None"
    by (simp add: simulateFibonacci_def a)
  have x: "simulateExecution ?code Python = None"
    by (simp only: simulateExecution_def i e f s if_False if_True option.case simp_thms)
  show ?thesis
    by (simp only: executeCode_def executionPromise_def execDelay_before_timeout t d x
        if_False if_True option.case)
qed

end
